theory Spec2Isabelle
  imports Main "HOL-Library.Sublist"
begin

text \<open>
  A data pipeline in a browser: a CSV or JSON file is parsed, an LLM service infers a
  column schema and writes a \<open>CREATE TABLE\<close> statement, and the rows are loaded into
  an embedded database. This theory embeds the parser, the two LLM clients, the store
  module and the orchestrating component, each function under the name it has in the
  source, and proves properties of them. Everything outside the program (the LLM
  service, the database library, the CSV library, \<open>JSON.parse\<close>, the clock) is an
  explicit input or a parameter.
\<close>

section \<open>Values and strings of the host language\<close>

text \<open>
  The pipeline handles values that come out of \<open>JSON.parse\<close> and of the CSV reader
  and never validates them: a \<open>DataRow\<close> is whatever value the parser returned. A JSON
  object is an association list in the order in which \<open>Object.keys\<close> enumerates it.
  Numbers are kept as integers (floating point is outside this development; only the
  test against zero is ever used).
\<close>

datatype json =
    JNull
  | JBool bool
  | JNum int
  | JStr string
  | JArr "json list"
  | JObj "(string \<times> json) list"

type_synonym DataRow = json

text \<open>Truthiness, as \<open>!x\<close> and \<open>a || b\<close> read it.\<close>

fun truthy :: "json \<Rightarrow> bool" where
  "truthy JNull = False"
| "truthy (JBool b) = b"
| "truthy (JNum n) = (n \<noteq> 0)"
| "truthy (JStr s) = (s \<noteq> [])"
| "truthy (JArr xs) = True"
| "truthy (JObj kvs) = True"

fun isArray :: "json \<Rightarrow> bool" where
  "isArray (JArr xs) = True"
| "isArray v = False"

definition backtick :: char where
  "backtick = CHR 0x60"

definition newline :: char where
  "newline = CHR 0x0A"

definition fence :: string where
  "fence = [backtick, backtick, backtick]"

text \<open>
  Characters are single code units below 256. \<open>isSpace\<close> is the class \<open>\s\<close> (and what
  \<open>trim\<close> strips) on those code units; \<open>isWord\<close> is \<open>\w\<close>.
\<close>

definition isSpace :: "char \<Rightarrow> bool" where
  "isSpace c = (c \<in> set [CHR 0x09, CHR 0x0A, CHR 0x0B, CHR 0x0C, CHR 0x0D, CHR 0x20, CHR 0xA0])"

definition isWord :: "char \<Rightarrow> bool" where
  "isWord c = (c \<in> set ''abcdefghijklmnopqrstuvwxyzABCDEFGHIJKLMNOPQRSTUVWXYZ0123456789_'')"

definition anyChar :: "char \<Rightarrow> bool" where
  "anyChar c = True"

definition trim :: "string \<Rightarrow> string" where
  "trim s = rev (dropWhile isSpace (rev (dropWhile isSpace s)))"

text \<open>
  \<open>toUpperCase\<close> and \<open>toLowerCase\<close> on the letters a to z. The source only compares
  the results with \<open>CREATE TABLE\<close>, \<open>csv\<close> and \<open>json\<close>, and no other code unit maps to
  one of their letters.
\<close>

definition upperChar :: "char \<Rightarrow> char" where
  "upperChar c =
     (case map_of (zip ''abcdefghijklmnopqrstuvwxyz'' ''ABCDEFGHIJKLMNOPQRSTUVWXYZ'') c of
        Some u \<Rightarrow> u | None \<Rightarrow> c)"

definition lowerChar :: "char \<Rightarrow> char" where
  "lowerChar c =
     (case map_of (zip ''ABCDEFGHIJKLMNOPQRSTUVWXYZ'' ''abcdefghijklmnopqrstuvwxyz'') c of
        Some l \<Rightarrow> l | None \<Rightarrow> c)"

definition toUpperCase :: "string \<Rightarrow> string" where
  "toUpperCase s = map upperChar s"

definition toLowerCase :: "string \<Rightarrow> string" where
  "toLowerCase s = map lowerChar s"

definition startsWith :: "string \<Rightarrow> string \<Rightarrow> bool" where
  "startsWith s p = (take (length p) s = p)"

text \<open>\<open>s.split(c)\<close> for a one-character separator: never empty.\<close>

fun split :: "char \<Rightarrow> string \<Rightarrow> string list" where
  "split c [] = [[]]"
| "split c (x # xs) =
     (if x = c then [] # split c xs
      else (case split c xs of [] \<Rightarrow> [[x]] | y # ys \<Rightarrow> (x # y) # ys))"

text \<open>\<open>xs.join(sep)\<close>.\<close>

fun join :: "string \<Rightarrow> string list \<Rightarrow> string" where
  "join sep [] = []"
| "join sep [x] = x"
| "join sep (x # y # ys) = x @ sep @ join sep (y # ys)"

text \<open>Decimal digits of a number, as \<open>String(n)\<close> and template literals print it.\<close>

definition digit :: "nat \<Rightarrow> char" where
  "digit d = ''0123456789'' ! d"

function nat_toString :: "nat \<Rightarrow> string" where
  "nat_toString n = (if n div 10 = 0 then [] else nat_toString (n div 10)) @ [digit (n mod 10)]"
  by pat_completeness auto
termination
  by (relation "measure id") auto

declare nat_toString.simps [simp del]

section \<open>Regular expressions as the source writes them\<close>

text \<open>
  The three regular expressions of the source are sequences of the atoms below, matched
  by backtracking in the order the host engine tries the alternatives: a greedy star
  takes one more character first and gives it back on failure, a lazy star tries the
  rest first, an optional literal is tried present first. \<open>Open n\<close> and \<open>Close n\<close>
  delimit capture group \<open>n\<close>.
\<close>

datatype quant = Greedy | Lazy

datatype atom =
    Lit string
  | LitCI string
  | Opt string
  | One "char \<Rightarrow> bool"
  | Star quant "char \<Rightarrow> bool"
  | Open nat
  | Close nat
  | End

type_synonym captures = "(nat \<times> string) list"

fun rmatch :: "atom list \<Rightarrow> string \<Rightarrow> string \<Rightarrow> (nat \<times> nat) list \<Rightarrow> captures \<Rightarrow> captures option" where
  "rmatch [] r c os cs = Some cs"
| "rmatch (End # as) r c os cs = (if r = [] then rmatch as r c os cs else None)"
| "rmatch (Lit l # as) r c os cs =
     (if take (length l) r = l \<and> length l \<le> length r
      then rmatch as (drop (length l) r) (rev l @ c) os cs else None)"
| "rmatch (LitCI l # as) r c os cs =
     (if toUpperCase (take (length l) r) = toUpperCase l \<and> length l \<le> length r
      then rmatch as (drop (length l) r) (rev (take (length l) r) @ c) os cs else None)"
| "rmatch (Opt l # as) r c os cs =
     (if take (length l) r = l \<and> length l \<le> length r
      then (case rmatch as (drop (length l) r) (rev l @ c) os cs of
              Some m \<Rightarrow> Some m
            | None \<Rightarrow> rmatch as r c os cs)
      else rmatch as r c os cs)"
| "rmatch (One p # as) r c os cs =
     (case r of
        [] \<Rightarrow> None
      | x # xs \<Rightarrow> if p x then rmatch as xs (x # c) os cs else None)"
| "rmatch (Star Greedy p # as) r c os cs =
     (case r of
        [] \<Rightarrow> rmatch as [] c os cs
      | x # xs \<Rightarrow>
          if p x
          then (case rmatch (Star Greedy p # as) xs (x # c) os cs of
                  Some m \<Rightarrow> Some m
                | None \<Rightarrow> rmatch as r c os cs)
          else rmatch as r c os cs)"
| "rmatch (Star Lazy p # as) r c os cs =
     (case rmatch as r c os cs of
        Some m \<Rightarrow> Some m
      | None \<Rightarrow>
          (case r of
             [] \<Rightarrow> None
           | x # xs \<Rightarrow> if p x then rmatch (Star Lazy p # as) xs (x # c) os cs else None))"
| "rmatch (Open n # as) r c os cs = rmatch as r c ((n, length c) # os) cs"
| "rmatch (Close n # as) r c os cs =
     (case map_of os n of
        None \<Rightarrow> rmatch as r c os cs
      | Some start \<Rightarrow> rmatch as r c os ((n, rev (take (length c - start) c)) # cs))"

text \<open>\<open>s.match(re)\<close> for a pattern anchored with \<open>^\<close>, and for an unanchored one.\<close>

definition match_anchored :: "atom list \<Rightarrow> string \<Rightarrow> captures option" where
  "match_anchored re s = rmatch re s [] [] []"

fun match_search :: "atom list \<Rightarrow> string \<Rightarrow> captures option" where
  "match_search re [] = rmatch re [] [] [] []"
| "match_search re (x # xs) =
     (case rmatch re (x # xs) [] [] [] of
        Some m \<Rightarrow> Some m
      | None \<Rightarrow> match_search re xs)"

text \<open>\<open>match[n]\<close>: the text of group \<open>n\<close>, \<open>None\<close> when the group did not take part.\<close>

definition group :: "captures \<Rightarrow> nat \<Rightarrow> string option" where
  "group m n = map_of m n"

section \<open>The LLM clients (geminiService)\<close>

text \<open>
  The LLM service is outside the program: what a call to \<open>generateContent\<close> did is an
  input of the model. \<open>Failed msg\<close> stands for any exception raised inside the
  \<open>try\<close> block of a client (a transport error, a response without text), with the
  message the \<open>catch\<close> clause reads.
\<close>

datatype llm_outcome = Responded string | Failed string

record result =
  error :: "string option"

record schema_result = result +
  analysis :: "json list option"

record sql_result = result +
  sql :: "string option"

text \<open>The pattern \<open>/^```(\w*)?\s*\n?(.*?)\n?\s*```$/s\<close> of \<open>parseJsonFromMarkdown\<close>.\<close>

definition fenceRegex_json :: "atom list" where
  "fenceRegex_json =
     [Lit fence, Open 1, Star Greedy isWord, Close 1, Star Greedy isSpace, Opt [newline],
      Open 2, Star Lazy anyChar, Close 2, Opt [newline], Star Greedy isSpace, Lit fence, End]"

text \<open>The pattern \<open>/^```(sql)?\s*\n?(.*?)\n?\s*```$/s\<close> of \<open>generateSqlSchemaWithGemini\<close>.\<close>

definition fenceRegex_sql :: "atom list" where
  "fenceRegex_sql =
     [Lit fence, Opt ''sql'', Star Greedy isSpace, Opt [newline],
      Open 2, Star Lazy anyChar, Close 2, Opt [newline], Star Greedy isSpace, Lit fence, End]"

text \<open>
  The common first lines of both clients: trim, then replace the text by the trimmed
  second group when the pattern matches and the group is not empty
  (\<open>if (match && match[2])\<close>).
\<close>

definition stripFence :: "atom list \<Rightarrow> string \<Rightarrow> string" where
  "stripFence re text =
     (let jsonStr = trim text in
      case match_anchored re jsonStr of
        None \<Rightarrow> jsonStr
      | Some m \<Rightarrow>
          (case group m 2 of
             None \<Rightarrow> jsonStr
           | Some g \<Rightarrow> if g \<noteq> [] then trim g else jsonStr))"

text \<open>
  \<open>parseJsonFromMarkdown\<close>. The argument \<open>parse\<close> is \<open>JSON.parse\<close>, \<open>None\<close> when it
  throws. The function returns \<open>null\<close> when both attempts throw, and the parsed value
  otherwise, which may be \<open>null\<close> itself.
\<close>

definition parseJsonFromMarkdown :: "(string \<Rightarrow> json option) \<Rightarrow> string \<Rightarrow> json" where
  "parseJsonFromMarkdown parse text =
     (case parse (stripFence fenceRegex_json text) of
        Some v \<Rightarrow> v
      | None \<Rightarrow> (case parse text of Some v \<Rightarrow> v | None \<Rightarrow> JNull))"

text \<open>
  \<open>String(v)\<close> throws a TypeError on an object that has a property \<open>toString\<close> of its
  own (in a parsed value it is never a function, and the inherited \<open>valueOf\<close> returns
  the object), and on an array that holds such an object, \<open>join\<close> converting every
  element.
\<close>

fun String_throws :: "json \<Rightarrow> bool" where
  "String_throws (JObj kvs) = (''toString'' \<in> fst ` set kvs)"
| "String_throws (JArr xs) = (\<exists>x \<in> set xs. String_throws x)"
| "String_throws v = False"

definition TypeError_null_object :: string where
  "TypeError_null_object = ''Cannot convert undefined or null to object''"

definition TypeError_primitive :: string where
  "TypeError_primitive = ''Cannot convert object to primitive value''"

text \<open>\<open>Object.values(v)\<close>; \<open>None\<close> is the TypeError on \<open>null\<close>.\<close>

fun object_values :: "json \<Rightarrow> json list option" where
  "object_values JNull = None"
| "object_values (JObj kvs) = Some (map snd kvs)"
| "object_values (JArr xs) = Some xs"
| "object_values (JStr s) = Some (map (\<lambda>c. JStr [c]) s)"
| "object_values (JBool b) = Some []"
| "object_values (JNum n) = Some []"

text \<open>
  \<open>prepareDataSample\<close> builds the text of the sample that goes into the prompt. The
  response is an input here, so only its exception is modelled. On data that is not
  empty, \<open>Object.keys(sample[0])\<close> throws on a \<open>null\<close> first row and on the missing
  first row of an empty sample; then, row after row, \<open>Object.values(row)\<close> throws on
  a \<open>null\<close> row and \<open>String(val)\<close> on a value that has no text. The call stands
  before the \<open>try\<close> block of \<open>analyzeSchemaWithGemini\<close>, so the promise rejects.
\<close>

definition sample_row_error :: "DataRow \<Rightarrow> string option" where
  "sample_row_error row =
     (case object_values row of
        None \<Rightarrow> Some TypeError_null_object
      | Some vals \<Rightarrow> if list_ex String_throws vals then Some TypeError_primitive else None)"

definition prepareDataSample_error :: "nat \<Rightarrow> DataRow list \<Rightarrow> string option" where
  "prepareDataSample_error max_sample d =
     (if d = [] then None
      else
        (case take max_sample d of
           [] \<Rightarrow> Some TypeError_null_object
         | row0 # rest \<Rightarrow>
             if row0 = JNull then Some TypeError_null_object
             else
               (case filter (\<lambda>r. r \<noteq> None) (map sample_row_error (row0 # rest)) of
                  [] \<Rightarrow> None
                | err # errs \<Rightarrow> err)))"

definition prepareDataSample_throws :: "nat \<Rightarrow> DataRow list \<Rightarrow> bool" where
  "prepareDataSample_throws max_sample d = (prepareDataSample_error max_sample d \<noteq> None)"

text \<open>
  \<open>analyzeSchemaWithGemini\<close>. \<open>ai\<close> says whether the client object exists (the key was
  set); \<open>Inl msg\<close> is the rejected promise.
\<close>

definition analyzeSchemaWithGemini ::
  "bool \<Rightarrow> (string \<Rightarrow> json option) \<Rightarrow> nat \<Rightarrow> DataRow list \<Rightarrow> string \<Rightarrow> llm_outcome
    \<Rightarrow> string + schema_result" where
  "analyzeSchemaWithGemini ai parse max_sample d fileName outcome =
     (if \<not> ai then
        Inr \<lparr>error = Some ''Gemini API client not initialized. API_KEY might be missing.'',
             analysis = None\<rparr>
      else
        (case prepareDataSample_error max_sample d of
           Some thrown \<Rightarrow> Inl thrown
         | None \<Rightarrow>
             (case outcome of
                Failed msg \<Rightarrow> Inr \<lparr>error = Some (''Gemini API error: '' @ msg), analysis = None\<rparr>
              | Responded text \<Rightarrow>
                  (let parsedResult = parseJsonFromMarkdown parse text in
                   if \<not> truthy parsedResult then
                     Inr \<lparr>error = Some ''Failed to parse schema analysis from LLM response.'',
                          analysis = None\<rparr>
                   else
                     (case parsedResult of
                        JArr cols \<Rightarrow> Inr \<lparr>error = None, analysis = Some cols\<rparr>
                      | _ \<Rightarrow>
                          Inr \<lparr>error = Some ''LLM response for schema analysis was not in the expected array format.'',
                               analysis = None\<rparr>)))))"

text \<open>\<open>generateSqlSchemaWithGemini\<close>.\<close>

definition generateSqlSchemaWithGemini ::
  "bool \<Rightarrow> json list \<Rightarrow> string \<Rightarrow> llm_outcome \<Rightarrow> sql_result" where
  "generateSqlSchemaWithGemini ai columns baseTableName outcome =
     (if \<not> ai then
        \<lparr>error = Some ''Gemini API client not initialized. API_KEY might be missing.'', sql = None\<rparr>
      else
        (case outcome of
           Failed msg \<Rightarrow> \<lparr>error = Some (''Gemini API error: '' @ msg), sql = None\<rparr>
         | Responded text \<Rightarrow>
             (let sqlStatement = stripFence fenceRegex_sql text in
              if \<not> startsWith (toUpperCase sqlStatement) ''CREATE TABLE'' then
                \<lparr>error = Some (''LLM did not return a valid CREATE TABLE statement. Response: '' @ sqlStatement),
                 sql = None\<rparr>
              else \<lparr>error = None, sql = Some sqlStatement\<rparr>)))"

section \<open>The catalog store (pgliteService)\<close>

text \<open>Property access on a parsed value; own properties only.\<close>

definition TypeError_null_read :: "string \<Rightarrow> string" where
  "TypeError_null_read k =
     ''Cannot read properties of null (reading '' @ [CHR 0x27] @ k @ [CHR 0x27] @ '')''"

definition index_keys :: "nat \<Rightarrow> string list" where
  "index_keys n = map nat_toString [0..<n]"

text \<open>\<open>Object.keys(v)\<close>; \<open>None\<close> is the TypeError on \<open>null\<close>.\<close>

fun object_keys :: "json \<Rightarrow> string list option" where
  "object_keys JNull = None"
| "object_keys (JObj kvs) = Some (map fst kvs)"
| "object_keys (JArr xs) = Some (index_keys (length xs))"
| "object_keys (JStr s) = Some (index_keys (length s))"
| "object_keys (JBool b) = Some []"
| "object_keys (JNum n) = Some []"

text \<open>\<open>v[k]\<close>: \<open>Inl\<close> is the TypeError on \<open>null\<close>, \<open>Inr None\<close> is \<open>undefined\<close>.\<close>

fun get_prop :: "json \<Rightarrow> string \<Rightarrow> string + json option" where
  "get_prop JNull k = Inl (TypeError_null_read k)"
| "get_prop (JObj kvs) k = Inr (map_of kvs k)"
| "get_prop (JArr xs) k =
     (if k = ''length'' then Inr (Some (JNum (int (length xs))))
      else Inr (map_of (zip (index_keys (length xs)) xs) k))"
| "get_prop (JStr s) k =
     (if k = ''length'' then Inr (Some (JNum (int (length s))))
      else Inr (map_of (zip (index_keys (length s)) (map (\<lambda>c. JStr [c]) s)) k))"
| "get_prop (JBool b) k = Inr None"
| "get_prop (JNum n) k = Inr None"

text \<open>\<open>columns.map(col => row[col])\<close>.\<close>

fun row_values :: "string list \<Rightarrow> DataRow \<Rightarrow> string + json option list" where
  "row_values [] row = Inr []"
| "row_values (col # cols) row =
     (case get_prop row col of
        Inl e \<Rightarrow> Inl e
      | Inr v \<Rightarrow> (case row_values cols row of Inl e \<Rightarrow> Inl e | Inr vs \<Rightarrow> Inr (v # vs)))"

text \<open>
  The embedded database is a library outside the program. Its connections are numbered
  in the order of their creation. A connection is live from the moment \<open>waitReady\<close>
  resolves until \<open>close\<close> is called on it: the call ends the connection, whether it
  returns or throws. \<open>contents\<close> is what each connection's database holds outside a
  transaction, and \<open>calls\<close> is the sequence of calls the program made to the library.
  The two module variables \<open>dbInstance\<close> and \<open>currentDbName\<close> are kept in the same
  record.
\<close>

datatype pg_call =
    Call_new string
  | Call_waitReady nat
  | Call_close nat
  | Call_query nat string "json option list"
  | Call_begin nat
  | Call_commit nat
  | Call_rollback nat

record 'db pglite =
  dbInstance :: "nat option"
  currentDbName :: "string option"
  live :: "nat list"
  created :: nat
  contents :: "nat \<Rightarrow> 'db"
  calls :: "pg_call list"

text \<open>
  What one statement does to a database is a parameter: \<open>Inl msg\<close> when the engine
  rejects it (the database is as before), the new database and the result object
  otherwise.
\<close>

type_synonym 'db pg_query = "string \<Rightarrow> json option list \<Rightarrow> 'db \<Rightarrow> string + ('db \<times> json)"

text \<open>Whether \<open>close\<close>, the constructor and \<open>waitReady\<close> succeed is decided outside.\<close>

datatype close_outcome = CloseOk | CloseThrows string

datatype open_outcome = Ready | NewThrows string | ReadyRejects string

record status = result +
  success :: bool

record exec_status = status +
  results :: "json option"

record query_status = status +
  data :: "json option"

definition succeeded :: status where
  "succeeded = \<lparr>error = None, success = True\<rparr>"

definition failed :: "string \<Rightarrow> status" where
  "failed msg = \<lparr>error = Some msg, success = False\<rparr>"

definition pg_close :: "close_outcome \<Rightarrow> nat \<Rightarrow> 'db pglite \<Rightarrow> 'db pglite \<times> string option" where
  "pg_close co h st =
     (st\<lparr>live := removeAll h (live st), calls := calls st @ [Call_close h]\<rparr>,
      case co of CloseOk \<Rightarrow> None | CloseThrows msg \<Rightarrow> Some msg)"

text \<open>\<open>new PGlite(dataDir)\<close> followed by \<open>await waitReady\<close>: the new connection.\<close>

definition pg_open :: "open_outcome \<Rightarrow> string \<Rightarrow> 'db pglite \<Rightarrow> 'db pglite \<times> (string + nat)" where
  "pg_open oo dataDir st =
     (let h = created st in
      case oo of
        NewThrows msg \<Rightarrow> (st\<lparr>calls := calls st @ [Call_new dataDir]\<rparr>, Inl msg)
      | ReadyRejects msg \<Rightarrow>
          (st\<lparr>created := Suc h, calls := calls st @ [Call_new dataDir, Call_waitReady h]\<rparr>, Inl msg)
      | Ready \<Rightarrow>
          (st\<lparr>created := Suc h, live := live st @ [h],
              calls := calls st @ [Call_new dataDir, Call_waitReady h]\<rparr>, Inr h))"

text \<open>The \<open>catch\<close> clause of \<open>initializePGLite\<close>.\<close>

definition init_failed :: "string \<Rightarrow> 'db pglite \<Rightarrow> 'db pglite \<times> status" where
  "init_failed msg st =
     (st\<lparr>dbInstance := None, currentDbName := None\<rparr>,
      failed (''PGLite initialization failed: '' @ msg))"

definition initializePGLite ::
  "close_outcome \<Rightarrow> open_outcome \<Rightarrow> string \<Rightarrow> 'db pglite \<Rightarrow> 'db pglite \<times> status" where
  "initializePGLite co oo dbName st =
     (if dbInstance st \<noteq> None \<and> currentDbName st = Some dbName then (st, succeeded)
      else
        (case (case dbInstance st of None \<Rightarrow> (st, None) | Some h \<Rightarrow> pg_close co h st) of
           (st1, Some msg) \<Rightarrow> init_failed msg st1
         | (st1, None) \<Rightarrow>
             (case pg_open oo (''pglite://'' @ dbName) st1 of
                (st2, Inl msg) \<Rightarrow> init_failed msg st2
              | (st2, Inr h) \<Rightarrow>
                  (st2\<lparr>dbInstance := Some h, currentDbName := Some dbName\<rparr>, succeeded))))"

definition closePGLite :: "close_outcome \<Rightarrow> 'db pglite \<Rightarrow> 'db pglite" where
  "closePGLite co st =
     (case dbInstance st of
        None \<Rightarrow> st
      | Some h \<Rightarrow> (fst (pg_close co h st))\<lparr>dbInstance := None, currentDbName := None\<rparr>)"

definition executeSql :: "'db pg_query \<Rightarrow> string \<Rightarrow> 'db pglite \<Rightarrow> 'db pglite \<times> exec_status" where
  "executeSql q sqlText st =
     (case dbInstance st of
        None \<Rightarrow> (st, \<lparr>error = Some ''PGLite not initialized.'', success = False, results = None\<rparr>)
      | Some h \<Rightarrow>
          (case q sqlText [] (contents st h) of
             Inl msg \<Rightarrow>
               (st\<lparr>calls := calls st @ [Call_query h sqlText []]\<rparr>,
                \<lparr>error = Some (''SQL execution error: '' @ msg), success = False, results = None\<rparr>)
           | Inr (db, res) \<Rightarrow>
               (st\<lparr>contents := (contents st)(h := db), calls := calls st @ [Call_query h sqlText []]\<rparr>,
                \<lparr>error = None, success = True, results = Some res\<rparr>)))"

text \<open>
  The body of the transaction callback: the loop over the rows, on the transaction's
  working copy of the database. It stops at the first exception, of \<open>row[col]\<close> or of
  \<open>tx.query\<close>, and returns the working copy, the calls made and the exception.
\<close>

fun insert_rows ::
  "'db pg_query \<Rightarrow> nat \<Rightarrow> string \<Rightarrow> string list \<Rightarrow> DataRow list \<Rightarrow> 'db
    \<Rightarrow> 'db \<times> pg_call list \<times> string option" where
  "insert_rows q h insertSqlBase columns [] db = (db, [], None)"
| "insert_rows q h insertSqlBase columns (row # rows) db =
     (case row_values columns row of
        Inl e \<Rightarrow> (db, [], Some e)
      | Inr vals \<Rightarrow>
          (case q insertSqlBase vals db of
             Inl e \<Rightarrow> (db, [Call_query h insertSqlBase vals], Some e)
           | Inr (db', res) \<Rightarrow>
               (case insert_rows q h insertSqlBase columns rows db' of
                  (db'', cs, r) \<Rightarrow> (db'', Call_query h insertSqlBase vals # cs, r))))"

text \<open>
  \<open>dbInstance.transaction(callback)\<close> of the library: \<open>BEGIN\<close>, the callback on a
  working copy, then \<open>COMMIT\<close>, which makes the working copy the contents; when the
  callback throws, \<open>ROLLBACK\<close>, which drops the working copy, and the exception is
  thrown on.
\<close>

definition pg_transaction ::
  "nat \<Rightarrow> ('db \<Rightarrow> 'db \<times> pg_call list \<times> string option) \<Rightarrow> 'db pglite \<Rightarrow> 'db pglite \<times> string option" where
  "pg_transaction h callback st =
     (case callback (contents st h) of
        (work, cs, None) \<Rightarrow>
          (st\<lparr>contents := (contents st)(h := work),
              calls := calls st @ [Call_begin h] @ cs @ [Call_commit h]\<rparr>, None)
      | (work, cs, Some e) \<Rightarrow>
          (st\<lparr>calls := calls st @ [Call_begin h] @ cs @ [Call_rollback h]\<rparr>, Some e))"

definition dquote :: string where
  "dquote = [CHR 0x22]"

definition insertSql :: "string \<Rightarrow> string list \<Rightarrow> string" where
  "insertSql tableName columns =
     (let placeholders = join '','' (map (\<lambda>i. ''$'' @ nat_toString (i + 1)) [0..<length columns])
      in ''INSERT INTO '' @ dquote @ tableName @ dquote @ '' (''
           @ join '','' (map (\<lambda>c. dquote @ c @ dquote) columns)
           @ '') VALUES ('' @ placeholders @ '')'')"

text \<open>
  \<open>batchInsertData\<close>. \<open>Inl msg\<close> is the rejected promise: \<open>Object.keys(data[0])\<close>
  stands before the \<open>try\<close> block.
\<close>

definition batchInsertData ::
  "'db pg_query \<Rightarrow> string \<Rightarrow> DataRow list \<Rightarrow> 'db pglite \<Rightarrow> 'db pglite \<times> (string + status)" where
  "batchInsertData q tableName d st =
     (case dbInstance st of
        None \<Rightarrow> (st, Inr (failed ''PGLite not initialized.''))
      | Some h \<Rightarrow>
          (case d of
             [] \<Rightarrow> (st, Inr succeeded)
           | row0 # rest \<Rightarrow>
               (case object_keys row0 of
                  None \<Rightarrow> (st, Inl TypeError_null_object)
                | Some columns \<Rightarrow>
                    (case pg_transaction h (insert_rows q h (insertSql tableName columns) columns d) st of
                       (st', None) \<Rightarrow> (st', Inr succeeded)
                     | (st', Some msg) \<Rightarrow> (st', Inr (failed (''Batch insert error: '' @ msg)))))))"

definition queryTableData ::
  "'db pg_query \<Rightarrow> string \<Rightarrow> nat \<Rightarrow> 'db pglite \<Rightarrow> 'db pglite \<times> query_status" where
  "queryTableData q tableName limit st =
     (case dbInstance st of
        None \<Rightarrow> (st, \<lparr>error = Some ''PGLite not initialized.'', success = False, data = None\<rparr>)
      | Some h \<Rightarrow>
          (let sqlText = ''SELECT * FROM '' @ dquote @ tableName @ dquote @ '' LIMIT ''
                           @ nat_toString limit @ '';''
           in case q sqlText [] (contents st h) of
                Inl msg \<Rightarrow>
                  (st\<lparr>calls := calls st @ [Call_query h sqlText []]\<rparr>,
                   \<lparr>error = Some (''Failed to query table '' @ tableName @ '': '' @ msg),
                    success = False, data = None\<rparr>)
              | Inr (db, res) \<Rightarrow>
                  (st\<lparr>contents := (contents st)(h := db), calls := calls st @ [Call_query h sqlText []]\<rparr>,
                   \<lparr>error = None, success = True, data = Some res\<rparr>)))"

section \<open>The data parser (dataProcessingService)\<close>

text \<open>
  The CSV reader is a library outside the program, and what it makes of a text is a
  parameter: \<open>papa content\<close> is the field \<open>data\<close> of what
  \<open>Papa.parse(content, {header: true, skipEmptyLines: true, dynamicTyping: true})\<close>
  returns. The reader reports what it finds wrong with a row in the field \<open>errors\<close>,
  which \<open>parseData\<close> only prints.
\<close>

text \<open>\<open>parseData\<close>; \<open>Inl msg\<close> is the Error it throws.\<close>

definition parseData ::
  "(string \<Rightarrow> json option) \<Rightarrow> (string \<Rightarrow> DataRow list) \<Rightarrow> string \<Rightarrow> string
    \<Rightarrow> string + DataRow list" where
  "parseData parse papa fileName fileContent =
     (let fileExtension = toLowerCase (last (split (CHR ''.'') fileName)) in
      if fileExtension = ''csv'' then Inr (papa fileContent)
      else if fileExtension = ''json'' then
        (case parse fileContent of
           None \<Rightarrow> Inl ''Invalid JSON format.''
         | Some (JArr xs) \<Rightarrow> Inr xs
         | Some jsonData \<Rightarrow> Inr [jsonData])
      else Inl ''Unsupported file type. Please use CSV or JSON.'')"

section \<open>The pipeline orchestrator (App)\<close>

datatype AppStep =
    Upload
  | AnalyzingSchema
  | ReviewSchema
  | GeneratingSql
  | ReviewSql
  | ProcessingDb
  | Done
  | Error

datatype LogType = LogInfo | LogError | LogSuccess | LogWarning

record EtlLogEntry =
  log_id :: string
  timestamp :: string
  message :: string
  log_type :: LogType

record File =
  file_name :: string
  file_type :: string
  file_size :: nat

datatype PgliteStatus = Inactive | Initializing | StatusReady | StatusError

text \<open>
  The state of the component, one field for each \<open>useState\<close>. The state variable
  \<open>currentDbName\<close> of the component is \<open>appDbName\<close> here, the name being taken by the
  module variable of the store, and \<open>file\<close> is \<open>file_st\<close>.
\<close>

record AppState =
  currentStep :: AppStep
  file_st :: "File option"
  rawDataPreview :: "DataRow list option"
  fullParsedData :: "DataRow list option"
  schemaAnalysis :: "json list option"
  generatedCreateTableSql :: "string option"
  etlLogs :: "EtlLogEntry list"
  globalError :: "string option"
  pgliteStatus :: PgliteStatus
  appDbName :: "string option"
  dbDataPreview :: "json option"

text \<open>
  What the program reads from outside and never changes: the credential, the built-in
  \<open>JSON.parse\<close>, the CSV reader, the database engine, the clock
  (\<open>clock k\<close> is what the \<open>k\<close>-th reading of the time returns, in milliseconds), the
  locale's rendering of a time, and the three constants of \<open>constants.ts\<close>.
\<close>

record 'db env =
  API_KEY :: "string option"
  JSON_parse :: "string \<Rightarrow> json option"
  Papa_parse :: "string \<Rightarrow> DataRow list"
  engine :: "'db pg_query"
  clock :: "nat \<Rightarrow> nat"
  toLocaleTimeString :: "nat \<Rightarrow> string"
  MAX_PREVIEW_ROWS :: nat
  MAX_DATA_SAMPLE_ROWS_FOR_LLM :: nat
  PGLITE_DB_NAME_PREFIX :: string

text \<open>The whole system: the component, the store module and the number of clock readings so far.\<close>

record 'db sys =
  ui :: AppState
  store :: "'db pglite"
  readings :: nat

text \<open>\<open>!process.env.API_KEY\<close>: unset or empty.\<close>

definition isApiKeyMissing :: "'db env \<Rightarrow> bool" where
  "isApiKeyMissing e = (case API_KEY e of None \<Rightarrow> True | Some k \<Rightarrow> k = [])"

text \<open>Truthiness of an optional string, and its text in a template literal.\<close>

definition truthy_str :: "string option \<Rightarrow> bool" where
  "truthy_str x = (case x of None \<Rightarrow> False | Some t \<Rightarrow> t \<noteq> [])"

definition opt_text :: "string option \<Rightarrow> string" where
  "opt_text x = (case x of None \<Rightarrow> ''undefined'' | Some t \<Rightarrow> t)"

text \<open>\<open>String(v)\<close> of a parsed value; \<open>None\<close> is \<open>undefined\<close>.\<close>

definition int_toString :: "int \<Rightarrow> string" where
  "int_toString i = (if 0 \<le> i then nat_toString (nat i) else CHR ''-'' # nat_toString (nat (- i)))"

fun js_String :: "json \<Rightarrow> string" where
  "js_String JNull = ''null''"
| "js_String (JBool b) = (if b then ''true'' else ''false'')"
| "js_String (JNum n) = int_toString n"
| "js_String (JStr t) = t"
| "js_String (JArr xs) = join '','' (map (\<lambda>x. if x = JNull then [] else js_String x) xs)"
| "js_String (JObj kvs) = ''[object Object]''"

definition with_ui :: "(AppState \<Rightarrow> AppState) \<Rightarrow> 'db sys \<Rightarrow> 'db sys" where
  "with_ui f s = s\<lparr>ui := f (ui s)\<rparr>"

text \<open>
  \<open>addLog\<close>: the id is \<open>Date.now().toString()\<close>, the time stamp comes from a second
  reading of the clock, and the entry goes to the end of the log.
\<close>

definition addLog :: "'db env \<Rightarrow> string \<Rightarrow> LogType \<Rightarrow> 'db sys \<Rightarrow> 'db sys" where
  "addLog e msg ty s =
     (let entry = \<lparr>log_id = nat_toString (clock e (readings s)),
                   timestamp = toLocaleTimeString e (clock e (Suc (readings s))),
                   message = msg, log_type = ty\<rparr>
      in s\<lparr>ui := (ui s)\<lparr>etlLogs := etlLogs (ui s) @ [entry]\<rparr>, readings := readings s + 2\<rparr>)"

definition initialState :: AppState where
  "initialState =
     \<lparr>currentStep = Upload, file_st = None, rawDataPreview = None, fullParsedData = None,
      schemaAnalysis = None, generatedCreateTableSql = None, etlLogs = [], globalError = None,
      pgliteStatus = Inactive, appDbName = None, dbDataPreview = None\<rparr>"

text \<open>The store module before any call, over a library that holds the databases \<open>c\<close>.\<close>

definition initialStore :: "(nat \<Rightarrow> 'db) \<Rightarrow> 'db pglite" where
  "initialStore c =
     \<lparr>dbInstance = None, currentDbName = None, live = [], created = 0, contents = c, calls = []\<rparr>"

definition initialSys :: "(nat \<Rightarrow> 'db) \<Rightarrow> 'db sys" where
  "initialSys c = \<lparr>ui = initialState, store = initialStore c, readings = 0\<rparr>"

text \<open>The effect that runs when the component is mounted.\<close>

definition startup :: "'db env \<Rightarrow> 'db sys \<Rightarrow> 'db sys" where
  "startup e s =
     (if isApiKeyMissing e then
        with_ui (\<lambda>u. u\<lparr>globalError :=
                      Some ''Gemini API Key is not configured. Please set the process.env.API_KEY environment variable.'',
                    currentStep := Error\<rparr>)
          (addLog e ''Critical: Gemini API Key (process.env.API_KEY) is missing. Most features will not work.''
             LogError s)
      else s)"

text \<open>
  \<open>resetState\<close>. \<open>closePGLite\<close> is called when the component holds a database name;
  \<open>co\<close> is what the library's \<open>close\<close> does then.
\<close>

definition resetState :: "'db env \<Rightarrow> close_outcome \<Rightarrow> 'db sys \<Rightarrow> 'db sys" where
  "resetState e co s =
     (let s1 = with_ui (\<lambda>u. u\<lparr>currentStep := (if isApiKeyMissing e then Error else Upload),
                               file_st := None, rawDataPreview := None, fullParsedData := None,
                               schemaAnalysis := None, generatedCreateTableSql := None,
                               globalError := (if isApiKeyMissing e then globalError u else None),
                               pgliteStatus := Inactive\<rparr>) s;
          s2 = (if truthy_str (appDbName (ui s)) then s1\<lparr>store := closePGLite co (store s1)\<rparr> else s1);
          s3 = with_ui (\<lambda>u. u\<lparr>appDbName := None, dbDataPreview := None\<rparr>) s2
      in addLog e ''State reset. Ready for new file upload.'' LogInfo s3)"

text \<open>The \<open>catch\<close> clause of \<open>handleFileUpload\<close>.\<close>

definition upload_failed :: "'db env \<Rightarrow> string \<Rightarrow> 'db sys \<Rightarrow> 'db sys" where
  "upload_failed e errorMessage s =
     with_ui (\<lambda>u. u\<lparr>globalError := Some (''Failed to process file or analyze schema: '' @ errorMessage),
                     currentStep := Error\<rparr>)
       (addLog e (''Error during file processing or schema analysis: '' @ errorMessage) LogError s)"

text \<open>
  \<open>handleFileUpload\<close>, written from its end. The last part: the answer of the schema
  analysis. A rejected promise and the Error thrown on a result without analysis both
  end in the \<open>catch\<close> clause.
\<close>

definition upload_analyzed :: "'db env \<Rightarrow> File \<Rightarrow> DataRow list \<Rightarrow> llm_outcome \<Rightarrow> 'db sys \<Rightarrow> 'db sys" where
  "upload_analyzed e uploadedFile parsed outcome s =
     (case analyzeSchemaWithGemini (\<not> isApiKeyMissing e) (JSON_parse e)
             (MAX_DATA_SAMPLE_ROWS_FOR_LLM e) parsed (file_name uploadedFile) outcome of
        Inl msg \<Rightarrow> upload_failed e msg s
      | Inr analysisResult \<Rightarrow>
          if truthy_str (error analysisResult) \<or> analysis analysisResult = None then
            upload_failed e
              (if truthy_str (error analysisResult) then opt_text (error analysisResult)
               else ''Schema analysis failed to return data.'') s
          else
            with_ui (\<lambda>u. u\<lparr>currentStep := ReviewSchema\<rparr>)
              (addLog e ''Schema analysis complete.'' LogSuccess
                 (with_ui (\<lambda>u. u\<lparr>schemaAnalysis := analysis analysisResult\<rparr>) s)))"

text \<open>The parsed rows: stored, counted, and refused when there is none.\<close>

definition upload_parsed :: "'db env \<Rightarrow> File \<Rightarrow> DataRow list \<Rightarrow> llm_outcome \<Rightarrow> 'db sys \<Rightarrow> 'db sys" where
  "upload_parsed e uploadedFile parsed outcome s =
     (let s1 = addLog e (''Successfully parsed '' @ nat_toString (length parsed)
                         @ '' rows from '' @ dquote @ file_name uploadedFile @ dquote @ ''.'') LogInfo
                 (with_ui (\<lambda>u. u\<lparr>rawDataPreview := Some (take (MAX_PREVIEW_ROWS e) parsed),
                                 fullParsedData := Some parsed\<rparr>) s)
      in if length parsed = 0 then
           with_ui (\<lambda>u. u\<lparr>globalError := Some ''Uploaded file contains no data.'', currentStep := Error\<rparr>)
             (addLog e ''Uploaded file is empty or contains no data rows.'' LogWarning s1)
         else
           upload_analyzed e uploadedFile parsed outcome
             (addLog e ''Starting schema analysis with Gemini...'' LogInfo s1))"

text \<open>The guard, the reset, and the parse of the file.\<close>

definition handleFileUpload ::
  "'db env \<Rightarrow> File \<Rightarrow> string \<Rightarrow> llm_outcome \<Rightarrow> close_outcome \<Rightarrow> 'db sys \<Rightarrow> 'db sys" where
  "handleFileUpload e uploadedFile content outcome co s =
     (if isApiKeyMissing e then s
      else
        (let s1 = with_ui (\<lambda>u. u\<lparr>file_st := Some uploadedFile, currentStep := AnalyzingSchema\<rparr>)
                    (addLog e (''File '' @ dquote @ file_name uploadedFile @ dquote @ '' selected. Type: ''
                               @ file_type uploadedFile @ ''. Size: ''
                               @ nat_toString (file_size uploadedFile) @ '' bytes.'') LogInfo
                       (resetState e co s))
         in case parseData (JSON_parse e) (Papa_parse e) (file_name uploadedFile) content of
              Inl msg \<Rightarrow> upload_failed e msg s1
            | Inr parsed \<Rightarrow> upload_parsed e uploadedFile parsed outcome s1))"

text \<open>\<open>name.split('.')[0].replace(/[^a-zA-Z0-9_]/g, '_') || 'uploaded_data'\<close>.\<close>

definition baseTableName_of :: "string \<Rightarrow> string" where
  "baseTableName_of fname =
     (let b = map (\<lambda>c. if isWord c then c else CHR ''_'') (hd (split (CHR ''.'') fname))
      in if b = [] then ''uploaded_data'' else b)"

definition handleGenerateSql :: "'db env \<Rightarrow> llm_outcome \<Rightarrow> 'db sys \<Rightarrow> 'db sys" where
  "handleGenerateSql e outcome s =
     (case (schemaAnalysis (ui s), file_st (ui s)) of
        (Some columns, Some f) \<Rightarrow>
          if isApiKeyMissing e then s
          else
            (let s1 = addLog e ''Generating SQL CREATE TABLE statement with Gemini...'' LogInfo
                        (with_ui (\<lambda>u. u\<lparr>currentStep := GeneratingSql\<rparr>) s);
                 sqlResult = generateSqlSchemaWithGemini (\<not> isApiKeyMissing e) columns
                               (baseTableName_of (file_name f)) outcome
             in if truthy_str (error sqlResult) \<or> \<not> truthy_str (sql sqlResult) then
                  (let errorMessage = (if truthy_str (error sqlResult) then opt_text (error sqlResult)
                                       else ''SQL generation failed to return data.'')
                   in with_ui (\<lambda>u. u\<lparr>globalError := Some (''Failed to generate SQL: '' @ errorMessage),
                                       currentStep := Error\<rparr>)
                        (addLog e (''Error generating SQL: '' @ errorMessage) LogError s1))
                else
                  with_ui (\<lambda>u. u\<lparr>currentStep := ReviewSql\<rparr>)
                    (addLog e ''SQL CREATE TABLE statement generated.'' LogSuccess
                       (with_ui (\<lambda>u. u\<lparr>generatedCreateTableSql := sql sqlResult\<rparr>) s1)))
      | _ \<Rightarrow> s)"

text \<open>The pattern \<open>/CREATE TABLE\s+"?([^"\s(]+)"?/i\<close>.\<close>

definition nameChar :: "char \<Rightarrow> bool" where
  "nameChar c = (\<not> (c = CHR 0x22 \<or> isSpace c \<or> c = CHR ''(''))"

definition tableNameRegex :: "atom list" where
  "tableNameRegex =
     [LitCI ''CREATE TABLE'', One isSpace, Star Greedy isSpace, Opt dquote,
      Open 1, One nameChar, Star Greedy nameChar, Close 1, Opt dquote]"

definition tableName_of :: "string \<Rightarrow> string \<Rightarrow> string" where
  "tableName_of sqlText fname =
     (case match_search tableNameRegex sqlText of
        None \<Rightarrow> baseTableName_of fname
      | Some m \<Rightarrow> opt_text (group m 1))"

text \<open>
  The text of \<open>data.length\<close> in a template literal; \<open>None\<close> is the TypeError of a
  value that has no text.
\<close>

definition length_text :: "json \<Rightarrow> string option" where
  "length_text v =
     (case get_prop v ''length'' of
        Inr (Some n) \<Rightarrow> if String_throws n then None else Some (js_String n)
      | _ \<Rightarrow> Some ''undefined'')"

definition db_failed :: "'db env \<Rightarrow> string \<Rightarrow> string option \<Rightarrow> 'db sys \<Rightarrow> 'db sys" where
  "db_failed e what err s =
     with_ui (\<lambda>u. u\<lparr>globalError := Some (''PGLite error: '' @ opt_text err), currentStep := Error\<rparr>)
       (addLog e (what @ opt_text err) LogError s)"

text \<open>
  \<open>handleProcessWithPGLite\<close>, written from its end: each definition is the part of
  the handler after one of its \<open>await\<close>s, up to the next early \<open>return\<close>.

  The last part: the preview is fetched, a failure is only a warning, and the pipeline
  is done. When the count of the fetched rows has no text, the template literal throws
  after the preview is stored, nothing catches it and the handler stops where it is.
\<close>

definition process_done :: "'db env \<Rightarrow> 'db sys \<Rightarrow> 'db sys" where
  "process_done e s =
     addLog e ''ETL process completed.'' LogSuccess (with_ui (\<lambda>u. u\<lparr>currentStep := Done\<rparr>) s)"

definition preview_failed :: "'db env \<Rightarrow> string option \<Rightarrow> 'db sys \<Rightarrow> 'db sys" where
  "preview_failed e err s =
     process_done e (addLog e (''Failed to fetch preview from DB: '' @ opt_text err) LogWarning s)"

definition process_preview :: "'db env \<Rightarrow> string \<Rightarrow> 'db sys \<Rightarrow> 'db sys" where
  "process_preview e tableName s =
     (let s1 = addLog e (''Fetching preview from table '' @ dquote @ tableName @ dquote @ ''...'') LogInfo s;
          (st2, previewResult) = queryTableData (engine e) tableName (MAX_PREVIEW_ROWS e) (store s1);
          s2 = s1\<lparr>store := st2\<rparr>
      in case data previewResult of
           Some d \<Rightarrow>
             if success previewResult \<and> truthy d then
               (case length_text d of
                  None \<Rightarrow> with_ui (\<lambda>u. u\<lparr>dbDataPreview := Some d\<rparr>) s2
                | Some n \<Rightarrow>
                    process_done e
                      (addLog e (''Successfully fetched '' @ n @ '' rows from '' @ dquote
                                 @ tableName @ dquote @ ''.'') LogSuccess
                         (with_ui (\<lambda>u. u\<lparr>dbDataPreview := Some d\<rparr>) s2)))
             else preview_failed e (error previewResult) s2
         | None \<Rightarrow> preview_failed e (error previewResult) s2)"

text \<open>
  The rows are inserted. When the promise of \<open>batchInsertData\<close> rejects, nothing
  catches it and the handler stops where it is.
\<close>

definition process_insert :: "'db env \<Rightarrow> string \<Rightarrow> DataRow list \<Rightarrow> 'db sys \<Rightarrow> 'db sys" where
  "process_insert e tableName rows s =
     (let s1 = addLog e (''Inserting '' @ nat_toString (length rows) @ '' rows into '' @ dquote
                         @ tableName @ dquote @ ''...'') LogInfo s;
          (st2, inserted) = batchInsertData (engine e) tableName rows (store s1);
          s2 = s1\<lparr>store := st2\<rparr>
      in case inserted of
           Inl rejected \<Rightarrow> s2
         | Inr insertResult \<Rightarrow>
             if \<not> success insertResult then
               db_failed e ''Failed to insert data: '' (error insertResult) s2
             else
               process_preview e tableName
                 (addLog e (''Data insertion complete. '' @ nat_toString (length rows)
                            @ '' rows processed.'') LogSuccess s2))"

text \<open>The table is created.\<close>

definition process_create :: "'db env \<Rightarrow> string \<Rightarrow> File \<Rightarrow> DataRow list \<Rightarrow> 'db sys \<Rightarrow> 'db sys" where
  "process_create e sqlText f rows s =
     (let tableName = tableName_of sqlText (file_name f);
          s1 = addLog e (''Executing CREATE TABLE statement for table '' @ dquote @ tableName
                         @ dquote @ ''...'') LogInfo s;
          (st2, createTableResult) = executeSql (engine e) sqlText (store s1);
          s2 = s1\<lparr>store := st2\<rparr>
      in if \<not> success createTableResult then
           db_failed e ''Failed to create table: '' (error createTableResult) s2
         else
           process_insert e tableName rows
             (addLog e (''Table '' @ dquote @ tableName @ dquote @ '' created successfully.'')
                LogSuccess s2))"

text \<open>
  The guard, the new database name and the connection. The name is made from a reading
  of the clock taken when the handler runs; the two log entries queued around it read
  the clock when the component renders next, at the first \<open>await\<close>.
\<close>

definition handleProcessWithPGLite ::
  "'db env \<Rightarrow> close_outcome \<Rightarrow> open_outcome \<Rightarrow> 'db sys \<Rightarrow> 'db sys" where
  "handleProcessWithPGLite e co oo s =
     (case (generatedCreateTableSql (ui s), fullParsedData (ui s), file_st (ui s)) of
        (Some sqlText, Some rows, Some f) \<Rightarrow>
          if sqlText = [] \<or> isApiKeyMissing e then s
          else
            (let newDbName = PGLITE_DB_NAME_PREFIX e @ nat_toString (clock e (readings s));
                 s1 = addLog e ''Processing data with PGLite...'' LogInfo
                        (with_ui (\<lambda>u. u\<lparr>currentStep := ProcessingDb\<rparr>)
                           (s\<lparr>readings := Suc (readings s)\<rparr>));
                 s2 = addLog e (''Initializing PGLite database: '' @ newDbName @ ''...'') LogInfo
                        (with_ui (\<lambda>u. u\<lparr>appDbName := Some newDbName, pgliteStatus := Initializing\<rparr>) s1);
                 (st3, initResult) = initializePGLite co oo newDbName (store s2);
                 s3 = s2\<lparr>store := st3\<rparr>
             in if \<not> success initResult then
                  with_ui (\<lambda>u. u\<lparr>globalError := Some (''PGLite failed: '' @ opt_text (error initResult)),
                                  pgliteStatus := StatusError, currentStep := Error\<rparr>)
                    (addLog e (''PGLite initialization failed: '' @ opt_text (error initResult)) LogError s3)
                else
                  process_create e sqlText f rows
                    (addLog e ''PGLite initialized successfully.'' LogSuccess
                       (with_ui (\<lambda>u. u\<lparr>pgliteStatus := StatusReady\<rparr>) s3)))
      | _ \<Rightarrow> s)"

text \<open>
  The states the system can be in: the mounted component after its start-up effect, and
  from there any sequence of the four triggers, each run to its end, with any file,
  any answer of the LLM service and any behaviour of the database library.
\<close>

inductive reachable :: "'db env \<Rightarrow> (nat \<Rightarrow> 'db) \<Rightarrow> 'db sys \<Rightarrow> bool" for e :: "'db env" and c :: "nat \<Rightarrow> 'db" where
  mounted: "reachable e c (startup e (initialSys c))"
| reset: "reachable e c s \<Longrightarrow> reachable e c (resetState e co s)"
| upload: "reachable e c s \<Longrightarrow> reachable e c (handleFileUpload e f content outcome co s)"
| generate: "reachable e c s \<Longrightarrow> reachable e c (handleGenerateSql e outcome s)"
| process: "reachable e c s \<Longrightarrow> reachable e c (handleProcessWithPGLite e co oo s)"

section \<open>The store module on its own\<close>

text \<open>
  The states of the store module: from the module before any call, any sequence of its
  exported functions, with any behaviour of the library.
\<close>

inductive store_run :: "(nat \<Rightarrow> 'db) \<Rightarrow> 'db pglite \<Rightarrow> bool" for c :: "nat \<Rightarrow> 'db" where
  run_start: "store_run c (initialStore c)"
| run_initialize: "store_run c st \<Longrightarrow> store_run c (fst (initializePGLite co oo dbName st))"
| run_close: "store_run c st \<Longrightarrow> store_run c (closePGLite co st)"
| run_execute: "store_run c st \<Longrightarrow> store_run c (fst (executeSql q sqlText st))"
| run_insert: "store_run c st \<Longrightarrow> store_run c (fst (batchInsertData q tableName d st))"
| run_query: "store_run c st \<Longrightarrow> store_run c (fst (queryTableData q tableName limit st))"

section \<open>The properties in the words of the specification\<close>





text \<open>A column analysis, and the value it is in the program.\<close>

record ColumnAnalysis =
  columnName :: string
  originalType :: "string option"
  inferredSqlType :: string
  semanticType :: string
  description :: string
  qualityIssues :: "string list"

definition json_of_ColumnAnalysis :: "ColumnAnalysis \<Rightarrow> json" where
  "json_of_ColumnAnalysis a =
     JObj ([(''columnName'', JStr (columnName a))]
           @ (case originalType a of None \<Rightarrow> [] | Some t \<Rightarrow> [(''originalType'', JStr t)])
           @ [(''inferredSqlType'', JStr (inferredSqlType a)),
              (''semanticType'', JStr (semanticType a)),
              (''description'', JStr (description a)),
              (''qualityIssues'', JArr (map JStr (qualityIssues a)))])"

text \<open>A text wrapped in a Markdown code fence with a language tag.\<close>

definition fenced :: "string \<Rightarrow> string \<Rightarrow> string" where
  "fenced tag body = fence @ tag @ [newline] @ body @ [newline] @ fence"

section \<open>A reference JSON printer and parser\<close>

text \<open>
  \<open>JSON.stringify\<close> without indentation, on the values of this development.
\<close>

definition hex_digit :: "nat \<Rightarrow> char" where
  "hex_digit d = ''0123456789abcdef'' ! d"

definition escape_char :: "char \<Rightarrow> string" where
  "escape_char ch =
     (if ch = CHR 0x22 then [CHR 0x5C, CHR 0x22]
      else if ch = CHR 0x5C then [CHR 0x5C, CHR 0x5C]
      else if ch = CHR 0x08 then [CHR 0x5C, CHR ''b'']
      else if ch = CHR 0x09 then [CHR 0x5C, CHR ''t'']
      else if ch = CHR 0x0A then [CHR 0x5C, CHR ''n'']
      else if ch = CHR 0x0C then [CHR 0x5C, CHR ''f'']
      else if ch = CHR 0x0D then [CHR 0x5C, CHR ''r'']
      else if (of_char ch :: nat) < 32 then
        [CHR 0x5C, CHR ''u'', CHR ''0'', CHR ''0'', hex_digit (of_char ch div 16), hex_digit (of_char ch mod 16)]
      else [ch])"

definition quote :: "string \<Rightarrow> string" where
  "quote t = dquote @ concat (map escape_char t) @ dquote"

fun JSON_stringify :: "json \<Rightarrow> string" where
  "JSON_stringify JNull = ''null''"
| "JSON_stringify (JBool b) = (if b then ''true'' else ''false'')"
| "JSON_stringify (JNum n) = int_toString n"
| "JSON_stringify (JStr t) = quote t"
| "JSON_stringify (JArr xs) = ''['' @ join '','' (map JSON_stringify xs) @ '']''"
| "JSON_stringify (JObj kvs) =
     ''{'' @ join '','' (map (\<lambda>kv. quote (fst kv) @ '':'' @ JSON_stringify (snd kv)) kvs) @ ''}''"

text \<open>
  A parser for the JSON grammar with whole numbers, and with \<open>\u\<close> escapes below 256.
  It stands in for the built-in \<open>JSON.parse\<close> on concrete texts; the theorems hold for
  any parser. The fuel bounds the nesting depth and is the length of the text.
\<close>

definition json_ws :: "char \<Rightarrow> bool" where
  "json_ws ch = (ch \<in> set [CHR 0x20, CHR 0x09, CHR 0x0A, CHR 0x0D])"

definition skip_ws :: "string \<Rightarrow> string" where
  "skip_ws t = dropWhile json_ws t"

definition hex_value :: "char \<Rightarrow> nat option" where
  "hex_value ch =
     map_of (zip ''0123456789abcdefABCDEF'' [0, 1, 2, 3, 4, 5, 6, 7, 8, 9, 10, 11, 12, 13, 14, 15, 10, 11, 12, 13, 14, 15]) ch"

definition unescape :: "char \<Rightarrow> char option" where
  "unescape ch =
     map_of [(CHR 0x22, CHR 0x22), (CHR 0x5C, CHR 0x5C), (CHR ''/'', CHR ''/''), (CHR ''b'', CHR 0x08),
             (CHR ''f'', CHR 0x0C), (CHR ''n'', CHR 0x0A), (CHR ''r'', CHR 0x0D), (CHR ''t'', CHR 0x09)] ch"

text \<open>The characters of a string literal after its opening quote, and the rest of the text.\<close>

fun string_body :: "string \<Rightarrow> (string \<times> string) option" where
  "string_body [] = None"
| "string_body (ch # t) =
     (if ch = CHR 0x22 then Some ([], t)
      else if ch = CHR 0x5C then
        (case t of
           [] \<Rightarrow> None
         | esc # t' \<Rightarrow>
             if esc = CHR ''u'' then
               (case map hex_value (take 4 t') of
                  [Some a, Some b, Some c, Some d] \<Rightarrow>
                    if a = 0 \<and> b = 0 then
                      (case string_body (drop 4 t') of
                         None \<Rightarrow> None
                       | Some (body, r) \<Rightarrow> Some (char_of (c * 16 + d) # body, r))
                    else None
                | _ \<Rightarrow> None)
             else
               (case unescape esc of
                  None \<Rightarrow> None
                | Some u \<Rightarrow>
                    (case string_body t' of None \<Rightarrow> None | Some (body, r) \<Rightarrow> Some (u # body, r))))
      else if (of_char ch :: nat) < 32 then None
      else (case string_body t of None \<Rightarrow> None | Some (body, r) \<Rightarrow> Some (ch # body, r)))"

definition isDigit :: "char \<Rightarrow> bool" where
  "isDigit ch = (ch \<in> set ''0123456789'')"

definition digit_value :: "char \<Rightarrow> nat" where
  "digit_value ch = of_char ch - 48"

definition nat_of_digits :: "string \<Rightarrow> nat" where
  "nat_of_digits ds = foldl (\<lambda>n ch. 10 * n + digit_value ch) 0 ds"

text \<open>A whole number: an optional minus sign, then \<open>0\<close> or digits without a leading zero.\<close>

definition number_token :: "string \<Rightarrow> (int \<times> string) option" where
  "number_token t =
     (let neg = (t \<noteq> [] \<and> hd t = CHR ''-'');
          u = (if neg then tl t else t);
          ds = takeWhile isDigit u;
          r = dropWhile isDigit u
      in if ds = [] \<or> (length ds > 1 \<and> hd ds = CHR ''0'') then None
         else if r \<noteq> [] \<and> hd r \<in> set ''.eE'' then None
         else Some (if neg then - int (nat_of_digits ds) else int (nat_of_digits ds), r))"

fun parse_value :: "nat \<Rightarrow> string \<Rightarrow> (json \<times> string) option"
  and parse_elements :: "nat \<Rightarrow> string \<Rightarrow> (json list \<times> string) option"
  and parse_members :: "nat \<Rightarrow> string \<Rightarrow> ((string \<times> json) list \<times> string) option" where
  "parse_value 0 t = None"
| "parse_value (Suc n) t =
     (if startsWith t ''null'' then Some (JNull, drop 4 t)
      else if startsWith t ''true'' then Some (JBool True, drop 4 t)
      else if startsWith t ''false'' then Some (JBool False, drop 5 t)
      else
        (case t of
           [] \<Rightarrow> None
         | ch # r \<Rightarrow>
             if ch = CHR 0x22 then
               (case string_body r of None \<Rightarrow> None | Some (body, r') \<Rightarrow> Some (JStr body, r'))
             else if ch = CHR ''['' then
               (if skip_ws r \<noteq> [] \<and> hd (skip_ws r) = CHR '']'' then Some (JArr [], tl (skip_ws r))
                else (case parse_elements n (skip_ws r) of
                        None \<Rightarrow> None
                      | Some (xs, r') \<Rightarrow> Some (JArr xs, r')))
             else if ch = CHR ''{'' then
               (if skip_ws r \<noteq> [] \<and> hd (skip_ws r) = CHR ''}'' then Some (JObj [], tl (skip_ws r))
                else (case parse_members n (skip_ws r) of
                        None \<Rightarrow> None
                      | Some (kvs, r') \<Rightarrow> Some (JObj kvs, r')))
             else (case number_token t of None \<Rightarrow> None | Some (i, r') \<Rightarrow> Some (JNum i, r'))))"
| "parse_elements 0 t = None"
| "parse_elements (Suc n) t =
     (case parse_value n t of
        None \<Rightarrow> None
      | Some (v, r) \<Rightarrow>
          (case skip_ws r of
             [] \<Rightarrow> None
           | ch # r' \<Rightarrow>
               if ch = CHR '']'' then Some ([v], r')
               else if ch = CHR '','' then
                 (case parse_elements n (skip_ws r') of
                    None \<Rightarrow> None
                  | Some (vs, r'') \<Rightarrow> Some (v # vs, r''))
               else None))"
| "parse_members 0 t = None"
| "parse_members (Suc n) t =
     (case t of
        [] \<Rightarrow> None
      | q # r0 \<Rightarrow>
          if q \<noteq> CHR 0x22 then None
          else
            (case string_body r0 of
               None \<Rightarrow> None
             | Some (k, r1) \<Rightarrow>
                 (case skip_ws r1 of
                    [] \<Rightarrow> None
                  | colon # r2 \<Rightarrow>
                      if colon \<noteq> CHR '':'' then None
                      else
                        (case parse_value n (skip_ws r2) of
                           None \<Rightarrow> None
                         | Some (v, r3) \<Rightarrow>
                             (case skip_ws r3 of
                                [] \<Rightarrow> None
                              | ch # r4 \<Rightarrow>
                                  if ch = CHR ''}'' then Some ([(k, v)], r4)
                                  else if ch = CHR '','' then
                                    (case parse_members n (skip_ws r4) of
                                       None \<Rightarrow> None
                                     | Some (kvs, r5) \<Rightarrow> Some ((k, v) # kvs, r5))
                                  else None)))))"

text \<open>A key that occurs twice keeps its first place and its last value.\<close>

fun obj_set :: "string \<Rightarrow> json \<Rightarrow> (string \<times> json) list \<Rightarrow> (string \<times> json) list" where
  "obj_set k v [] = [(k, v)]"
| "obj_set k v ((k', v') # kvs) = (if k = k' then (k, v) # kvs else (k', v') # obj_set k v kvs)"

fun dedup :: "json \<Rightarrow> json" where
  "dedup (JArr xs) = JArr (map dedup xs)"
| "dedup (JObj kvs) = JObj (foldl (\<lambda>acc kv. obj_set (fst kv) (dedup (snd kv)) acc) [] kvs)"
| "dedup v = v"

definition JSON_parse_ref :: "string \<Rightarrow> json option" where
  "JSON_parse_ref t =
     (case parse_value (Suc (length t)) (skip_ws t) of
        None \<Rightarrow> None
      | Some (v, r) \<Rightarrow> if skip_ws r = [] then Some (dedup v) else None)"

section \<open>Concrete inputs\<close>

text \<open>
  An engine with one table whose columns do not accept \<open>null\<close>: an \<open>INSERT\<close> with a
  missing or \<open>null\<close> value is rejected, any other \<open>INSERT\<close> appends its values, and
  any other statement changes nothing.
\<close>

definition example_engine :: "(json option list list) pg_query" where
  "example_engine sqlText vals db =
     (if \<not> startsWith sqlText ''INSERT'' then Inr (db, JObj [(''rows'', JArr [])])
      else if None \<in> set vals \<or> Some JNull \<in> set vals
      then Inl ''null value violates not-null constraint''
      else Inr (db @ [vals], JObj [(''affectedRows'', JNum 1)]))"

definition example_store :: "(json option list list) pglite" where
  "example_store =
     \<lparr>dbInstance = Some 0, currentDbName = Some ''etl_db_1'', live = [0], created = 1,
      contents = (\<lambda>h. []), calls = []\<rparr>"

text \<open>Ten rows, the fifth with a \<open>null\<close>.\<close>

definition example_rows :: "DataRow list" where
  "example_rows = map (\<lambda>i. JObj [(''n'', if i = (5::nat) then JNull else JNum (int i))]) [1..<11]"

text \<open>
  Two CSV texts and the rows the CSV reader returns for them. In the second the header
  names a field \<open>__proto__\<close>: the reader fills a row with \<open>row[field] = value\<close>, and
  for this name the assignment of a number stores no property.
\<close>

definition example_csv :: string where
  "example_csv = ''name,age'' @ [newline] @ ''Alice,30'' @ [newline] @ ''Bob,25''"

definition example_csv_rows :: "DataRow list" where
  "example_csv_rows =
     [JObj [(''name'', JStr ''Alice''), (''age'', JNum 30)],
      JObj [(''name'', JStr ''Bob''), (''age'', JNum 25)]]"

definition proto_csv :: string where
  "proto_csv = ''__proto__,a'' @ [newline] @ ''1,2''"

definition proto_csv_rows :: "DataRow list" where
  "proto_csv_rows = [JObj [(''a'', JNum 2)]]"

definition example_reader :: "string \<Rightarrow> DataRow list" where
  "example_reader content =
     (if content = example_csv then example_csv_rows
      else if content = proto_csv then proto_csv_rows
      else [])"

text \<open>An environment whose clock advances by a millisecond every fourth reading.\<close>

definition example_env :: "string option \<Rightarrow> (json option list list) env" where
  "example_env key =
     \<lparr>API_KEY = key, JSON_parse = JSON_parse_ref, Papa_parse = example_reader,
      engine = example_engine, clock = (\<lambda>k. 1000 + k div 4),
      toLocaleTimeString = nat_toString, MAX_PREVIEW_ROWS = 10,
      MAX_DATA_SAMPLE_ROWS_FOR_LLM = 20, PGLITE_DB_NAME_PREFIX = ''etl_db_''\<rparr>"

definition example_file :: File where
  "example_file = \<lparr>file_name = ''people.csv'', file_type = ''text/csv'', file_size = 27\<rparr>"

definition example_columns :: "ColumnAnalysis list" where
  "example_columns =
     [\<lparr>columnName = ''name'', originalType = None, inferredSqlType = ''TEXT'',
       semanticType = ''Person Name'', description = ''The name of a person'', qualityIssues = []\<rparr>,
      \<lparr>columnName = ''age'', originalType = Some ''number'', inferredSqlType = ''INTEGER'',
       semanticType = ''Count'', description = ''Age in years'',
       qualityIssues = [''Possible outliers detected'']\<rparr>]"


definition example_object_text :: string where
  "example_object_text = ''{'' @ dquote @ ''columnName'' @ dquote @ '': '' @ dquote @ ''a'' @ dquote @ ''}''"

text \<open>A state at the end of a run: the component holds the name of the open database.\<close>

definition example_done :: "(json option list list) sys" where
  "example_done =
     \<lparr>ui = \<lparr>currentStep = Done, file_st = Some example_file,
             rawDataPreview = Some [JObj [(''n'', JNum 1)]], fullParsedData = Some [JObj [(''n'', JNum 1)]],
             schemaAnalysis = Some (map json_of_ColumnAnalysis example_columns),
             generatedCreateTableSql = Some ''CREATE TABLE people (n INTEGER);'',
             etlLogs = [\<lparr>log_id = ''1000'', timestamp = ''1000'', message = ''ETL process completed.'',
                        log_type = LogSuccess\<rparr>],
             globalError = None, pgliteStatus = StatusReady, appDbName = Some ''etl_db_1'',
             dbDataPreview = Some (JObj [(''rows'', JArr [])])\<rparr>,
      store = example_store, readings = 2\<rparr>"

text \<open>The store after \<open>initializePGLite("a")\<close> on the module before any call.\<close>

definition example_opened_store :: "unit pglite" where
  "example_opened_store =
     \<lparr>dbInstance = Some 0, currentDbName = Some ''a'', live = [0], created = 1,
      contents = (\<lambda>h. ()), calls = [Call_new ''pglite://a'', Call_waitReady 0]\<rparr>"

section \<open>Notions used in the proofs\<close>

text \<open>The log of \<open>s'\<close> is the log of \<open>s\<close> with entries added at its end.\<close>

definition log_grows :: "'db sys \<Rightarrow> 'db sys \<Rightarrow> bool" where
  "log_grows s s' = prefix (etlLogs (ui s)) (etlLogs (ui s'))"

text \<open>While the store holds a connection, the component holds a database name.\<close>

definition named_connection :: "'db sys \<Rightarrow> bool" where
  "named_connection s = (dbInstance (store s) = None \<or> truthy_str (appDbName (ui s)))"

text \<open>The store tracks every live connection: at most the one in \<open>dbInstance\<close>.\<close>

definition one_connection :: "'db pglite \<Rightarrow> bool" where
  "one_connection st = (live st = (case dbInstance st of None \<Rightarrow> [] | Some h \<Rightarrow> [h]))"

text \<open>
  The parser reads the printed text of \<open>v\<close> back, whatever text follows and with any
  fuel that is at least the length of the printed text.
\<close>

definition parses :: "json \<Rightarrow> bool" where
  "parses v =
     (JSON_stringify v \<noteq> []
      \<and> hd (JSON_stringify v) \<notin> set [CHR 0x20, CHR 0x09, CHR 0x0A, CHR 0x0D, CHR '']'', CHR ''}'']
      \<and> (\<forall>n r. length (JSON_stringify v) \<le> n \<longrightarrow> parse_value n (JSON_stringify v @ r) = Some (v, r)))"

text \<open>A value without numbers, and a value whose objects have no key twice.\<close>

fun stringy :: "json \<Rightarrow> bool" where
  "stringy (JNum n) = False"
| "stringy (JArr xs) = (\<forall>x \<in> set xs. stringy x)"
| "stringy (JObj kvs) = (\<forall>kv \<in> set kvs. stringy (snd kv))"
| "stringy v = True"

fun distinct_keys :: "json \<Rightarrow> bool" where
  "distinct_keys (JArr xs) = (\<forall>x \<in> set xs. distinct_keys x)"
| "distinct_keys (JObj kvs) = (distinct (map fst kvs) \<and> (\<forall>kv \<in> set kvs. distinct_keys (snd kv)))"
| "distinct_keys v = True"

section \<open>Batch insert\<close>

lemma insert_rows_calls:
  "insert_rows q h sq cols rows db = (db', cs, None) \<Longrightarrow> length cs = length rows"
  by (induction rows arbitrary: db db' cs) (auto split: sum.splits prod.splits)

text \<open>
  When the batch goes through, the library was asked to begin, to run one statement for
  each row and to commit.
\<close>

lemma batchInsertData_commits:
  assumes "dbInstance st = Some h" and "d \<noteq> []"
    and "batchInsertData q tableName d st = (st', Inr succeeded)"
  shows "\<exists>cs. calls st' = calls st @ [Call_begin h] @ cs @ [Call_commit h] \<and> length cs = length d"
proof -
  from assms obtain columns where "object_keys (hd d) = Some columns"
    by (cases d) (auto simp: batchInsertData_def succeeded_def split: option.splits)
  obtain work cs r where
    body: "insert_rows q h (insertSql tableName columns) columns d (contents st h) = (work, cs, r)"
    by (metis prod_cases3)
  with assms \<open>object_keys (hd d) = Some columns\<close>
  have "r = None" and "calls st' = calls st @ [Call_begin h] @ cs @ [Call_commit h]"
    by (cases d; cases r;
        simp add: batchInsertData_def pg_transaction_def failed_def succeeded_def
          del: insert_rows.simps; fastforce)+
  with body show ?thesis
    using insert_rows_calls by fastforce
qed

text \<open>
  C4, as the code has it: with no rows, \<open>batchInsertData\<close> leaves the store module and
  the library untouched (no call is made, nothing changes), and it reports success when
  the store is initialized; when the store is not initialized it reports the failure
  \<open>PGLite not initialized.\<close>, the check of the connection standing before the check
  of the rows.
\<close>

theorem batchInsertData_empty:
  "batchInsertData q tableName [] st =
     (st, Inr (if dbInstance st = None then failed ''PGLite not initialized.'' else succeeded))"
  by (simp add: batchInsertData_def split: option.splits)

text \<open>On an initialized store the empty batch succeeds and the store is as before.\<close>

theorem batchInsertData_empty_witness:
  "batchInsertData example_engine ''t'' [] example_store = (example_store, Inr succeeded)"
  using batchInsertData_empty [of example_engine "''t''" example_store]
  by (simp add: example_store_def)

text \<open>
  C4 as stated fails: on the store before any \<open>initializePGLite\<close>, the empty batch does
  not return success.
\<close>

theorem batchInsertData_empty_counterexample:
  "snd (batchInsertData example_engine ''t'' [] (initialStore (\<lambda>h. [])))
     = Inr \<lparr>error = Some ''PGLite not initialized.'', success = False\<rparr>"
  by (simp add: batchInsertData_def initialStore_def failed_def)

text \<open>
  C2: for a batch that is not empty, whenever \<open>batchInsertData\<close> does not return
  success, whatever the engine does with each statement, the contents of every database
  are what they were before the call: no row of the batch is visible.
\<close>

theorem batchInsertData_atomic:
  assumes "d \<noteq> []" and "batchInsertData q tableName d st = (st', res)" and "res \<noteq> Inr succeeded"
  shows "contents st' = contents st"
  using assms
  by (auto simp: batchInsertData_def pg_transaction_def split: option.splits list.splits prod.splits)

lemma example_insert_fails:
  "snd (batchInsertData example_engine ''t'' example_rows example_store)
     = Inr (failed ''Batch insert error: null value violates not-null constraint'')"
  by code_simp

text \<open>Ten rows of which the fifth is rejected: the table holds no row afterwards, not four.\<close>

theorem batchInsertData_atomic_witness:
  "example_rows \<noteq> []
   \<and> snd (batchInsertData example_engine ''t'' example_rows example_store) \<noteq> Inr succeeded
   \<and> contents (fst (batchInsertData example_engine ''t'' example_rows example_store)) 0 = []"
proof -
  have h1: "example_rows \<noteq> []" by code_simp
  have h2: "snd (batchInsertData example_engine ''t'' example_rows example_store) \<noteq> Inr succeeded"
    by (simp add: example_insert_fails failed_def succeeded_def)
  have "contents (fst (batchInsertData example_engine ''t'' example_rows example_store))
          = contents example_store"
    by (rule batchInsertData_atomic [OF h1 _ h2, of example_engine "''t''" example_store]) simp
  then show ?thesis using h1 h2 by (simp add: example_store_def)
qed

section \<open>At most one connection\<close>

lemma one_connection_initialize:
  assumes "one_connection st"
  shows "one_connection (fst (initializePGLite co oo dbName st))"
  using assms
  by (auto simp: one_connection_def initializePGLite_def init_failed_def pg_close_def pg_open_def
      Let_def succeeded_def split: option.splits open_outcome.splits close_outcome.splits)

lemma one_connection_close: "one_connection st \<Longrightarrow> one_connection (closePGLite co st)"
  by (auto simp: one_connection_def closePGLite_def pg_close_def split: option.splits)

lemma executeSql_frame:
  "dbInstance (fst (executeSql q t st)) = dbInstance st \<and> live (fst (executeSql q t st)) = live st
   \<and> created (fst (executeSql q t st)) = created st"
  by (simp add: executeSql_def split: option.splits sum.splits prod.splits)

lemma batchInsertData_frame:
  "dbInstance (fst (batchInsertData q t d st)) = dbInstance st \<and> live (fst (batchInsertData q t d st)) = live st
   \<and> created (fst (batchInsertData q t d st)) = created st"
  by (simp add: batchInsertData_def pg_transaction_def split: option.splits list.splits prod.splits)

lemma queryTableData_frame:
  "dbInstance (fst (queryTableData q t n st)) = dbInstance st \<and> live (fst (queryTableData q t n st)) = live st
   \<and> created (fst (queryTableData q t n st)) = created st"
  by (simp add: queryTableData_def Let_def split: option.splits sum.splits prod.splits)

lemma one_connection_run: "store_run c st \<Longrightarrow> one_connection st"
proof (induction rule: store_run.induct)
  case run_start
  show ?case by (simp add: one_connection_def initialStore_def)
next
  case (run_initialize st co oo dbName)
  then show ?case by (simp add: one_connection_initialize)
next
  case (run_close st co)
  then show ?case by (simp add: one_connection_close)
next
  case (run_execute st q sqlText)
  then show ?case by (simp add: one_connection_def executeSql_frame)
next
  case (run_insert st q tableName d)
  then show ?case by (simp add: one_connection_def batchInsertData_frame)
next
  case (run_query st q tableName limit)
  then show ?case by (simp add: one_connection_def queryTableData_frame)
qed

lemma handle_created: "store_run c st \<Longrightarrow> dbInstance st = Some h \<Longrightarrow> h < created st"
proof (induction arbitrary: h rule: store_run.induct)
  case run_start
  then show ?case by (simp add: initialStore_def)
next
  case (run_initialize st co oo dbName)
  then show ?case
    by (auto simp: initializePGLite_def init_failed_def pg_close_def pg_open_def Let_def
        split: option.splits open_outcome.splits close_outcome.splits if_splits)
next
  case (run_close st co)
  then show ?case by (simp add: closePGLite_def split: option.splits)
next
  case (run_execute st q sqlText)
  then show ?case by (simp add: executeSql_frame)
next
  case (run_insert st q tableName d)
  then show ?case by (simp add: batchInsertData_frame)
next
  case (run_query st q tableName limit)
  then show ?case by (simp add: queryTableData_frame)
qed

text \<open>What \<open>initializePGLite\<close> does when a connection with another name is open.\<close>

lemma initializePGLite_other:
  assumes "dbInstance st = Some h" and "currentDbName st \<noteq> Some dbName"
  shows "initializePGLite co oo dbName st =
     (case co of
        CloseThrows msg \<Rightarrow>
          (st\<lparr>dbInstance := None, currentDbName := None, live := removeAll h (live st),
              calls := calls st @ [Call_close h]\<rparr>,
           failed (''PGLite initialization failed: '' @ msg))
      | CloseOk \<Rightarrow>
          (case oo of
             NewThrows msg \<Rightarrow>
               (st\<lparr>dbInstance := None, currentDbName := None, live := removeAll h (live st),
                   calls := calls st @ [Call_close h, Call_new (''pglite://'' @ dbName)]\<rparr>,
                failed (''PGLite initialization failed: '' @ msg))
           | ReadyRejects msg \<Rightarrow>
               (st\<lparr>dbInstance := None, currentDbName := None, live := removeAll h (live st),
                   created := Suc (created st),
                   calls := calls st @ [Call_close h, Call_new (''pglite://'' @ dbName),
                                        Call_waitReady (created st)]\<rparr>,
                failed (''PGLite initialization failed: '' @ msg))
           | Ready \<Rightarrow>
               (st\<lparr>dbInstance := Some (created st), currentDbName := Some dbName,
                   live := removeAll h (live st) @ [created st], created := Suc (created st),
                   calls := calls st @ [Call_close h, Call_new (''pglite://'' @ dbName),
                                        Call_waitReady (created st)]\<rparr>,
                succeeded)))"
  using assms
  by (cases co; cases oo)
     (simp_all add: initializePGLite_def init_failed_def pg_close_def pg_open_def Let_def)

text \<open>The store of the running system is a store the module can reach.\<close>

lemma store_addLog: "store (addLog e m t s) = store s"
  by (simp add: addLog_def Let_def)

lemma store_with_ui: "store (with_ui f s) = store s"
  by (simp add: with_ui_def)

lemma store_run_reset: "store_run c (store s) \<Longrightarrow> store_run c (store (resetState e co s))"
  by (simp add: resetState_def Let_def store_addLog store_with_ui run_close)

lemma store_run_upload:
  "store_run c (store s) \<Longrightarrow> store_run c (store (handleFileUpload e f content outcome co s))"
  using store_run_reset [of c s e co]
  by (simp add: handleFileUpload_def Let_def upload_failed_def upload_parsed_def upload_analyzed_def
      store_addLog store_with_ui split: sum.splits)

lemma store_run_generate: "store_run c (store s) \<Longrightarrow> store_run c (store (handleGenerateSql e outcome s))"
  by (simp add: handleGenerateSql_def Let_def store_addLog store_with_ui split: option.splits)

lemma store_run_preview: "store_run c (store s) \<Longrightarrow> store_run c (store (process_preview e t s))"
  using run_query [of c "store s" "engine e" t "MAX_PREVIEW_ROWS e"]
  by (auto simp: process_preview_def process_done_def preview_failed_def Let_def store_addLog store_with_ui
      split: option.splits prod.splits)

lemma store_run_insert: "store_run c (store s) \<Longrightarrow> store_run c (store (process_insert e t rows s))"
  using run_insert [of c "store s" "engine e" t rows]
  by (auto simp: process_insert_def db_failed_def Let_def store_addLog store_with_ui
      split: sum.splits prod.splits intro!: store_run_preview)

lemma store_run_create: "store_run c (store s) \<Longrightarrow> store_run c (store (process_create e q f rows s))"
  using run_execute [of c "store s" "engine e" q]
  by (auto simp: process_create_def db_failed_def Let_def store_addLog store_with_ui
      split: prod.splits intro!: store_run_insert)

lemma store_run_process:
  "store_run c (store s) \<Longrightarrow> store_run c (store (handleProcessWithPGLite e co oo s))"
proof -
  assume r: "store_run c (store s)"
  have "store_run c x" if "initializePGLite co oo n (store s) = (x, y)" for n x y
    using run_initialize [OF r, of co oo n] that by simp
  then show ?thesis
    using r
    by (auto simp: handleProcessWithPGLite_def Let_def store_addLog store_with_ui
        split: option.splits prod.splits intro!: store_run_create)
qed

lemma reachable_store_run: "reachable e c s \<Longrightarrow> store_run c (store s)"
proof (induction rule: reachable.induct)
  case mounted
  show ?case
    by (simp add: startup_def initialSys_def store_addLog store_with_ui run_start)
next
  case (reset s co)
  then show ?case by (simp add: store_run_reset)
next
  case (upload s f content outcome co)
  then show ?case by (simp add: store_run_upload)
next
  case (generate s outcome)
  then show ?case by (simp add: store_run_generate)
next
  case (process s co oo)
  then show ?case by (simp add: store_run_process)
qed

text \<open>
  C3: in every state the store module reaches, and so in every state of the running
  system, there is at most one live connection, and it is the one in \<open>dbInstance\<close>.
  \<open>initializePGLite\<close> called with the name of the connection that is open succeeds
  and changes nothing, no call being made. Called with another name while a connection
  is open, its first call to the library is \<open>close\<close> on the prior connection, and the
  new connection is created only after that call has returned; the prior connection
  is not live afterwards. It succeeds when \<open>close\<close> returns and the new connection
  becomes ready, and then holds the new connection under the new name, the only live
  one; in every other case it reports the failure and holds no connection, none being
  live.
\<close>

theorem single_connection:
  "(store_run c st \<longrightarrow> length (live st) \<le> 1 \<and> one_connection st)
   \<and> (reachable e k s \<longrightarrow> length (live (store s)) \<le> 1 \<and> one_connection (store s))
   \<and> (dbInstance st \<noteq> None \<and> currentDbName st = Some dbName \<longrightarrow>
        initializePGLite co oo dbName st = (st, succeeded))
   \<and> (store_run c st \<and> dbInstance st = Some h \<and> currentDbName st \<noteq> Some dbName \<longrightarrow>
        calls (fst (initializePGLite co oo dbName st)) =
          calls st @ [Call_close h] @
            (case co of
               CloseThrows msg \<Rightarrow> []
             | CloseOk \<Rightarrow>
                 (case oo of
                    NewThrows msg \<Rightarrow> [Call_new (''pglite://'' @ dbName)]
                  | _ \<Rightarrow> [Call_new (''pglite://'' @ dbName), Call_waitReady (created st)]))
        \<and> h \<notin> set (live (fst (initializePGLite co oo dbName st)))
        \<and> (success (snd (initializePGLite co oo dbName st)) \<longleftrightarrow> co = CloseOk \<and> oo = Ready)
        \<and> (success (snd (initializePGLite co oo dbName st)) \<longrightarrow>
              snd (initializePGLite co oo dbName st) = succeeded
            \<and> dbInstance (fst (initializePGLite co oo dbName st)) = Some (created st)
            \<and> currentDbName (fst (initializePGLite co oo dbName st)) = Some dbName
            \<and> live (fst (initializePGLite co oo dbName st)) = [created st])
        \<and> (\<not> success (snd (initializePGLite co oo dbName st)) \<longrightarrow>
              (\<exists>msg. snd (initializePGLite co oo dbName st) = failed (''PGLite initialization failed: '' @ msg))
            \<and> dbInstance (fst (initializePGLite co oo dbName st)) = None
            \<and> currentDbName (fst (initializePGLite co oo dbName st)) = None
            \<and> live (fst (initializePGLite co oo dbName st)) = []))"
proof (intro conjI)
  show "store_run c st \<longrightarrow> length (live st) \<le> 1 \<and> one_connection st"
  proof
    assume "store_run c st"
    then have "one_connection st" by (rule one_connection_run)
    then show "length (live st) \<le> 1 \<and> one_connection st"
      by (simp add: one_connection_def split: option.splits)
  qed
next
  show "reachable e k s \<longrightarrow> length (live (store s)) \<le> 1 \<and> one_connection (store s)"
  proof
    assume "reachable e k s"
    then have "one_connection (store s)" by (intro one_connection_run reachable_store_run)
    then show "length (live (store s)) \<le> 1 \<and> one_connection (store s)"
      by (simp add: one_connection_def split: option.splits)
  qed
next
  show "dbInstance st \<noteq> None \<and> currentDbName st = Some dbName \<longrightarrow>
        initializePGLite co oo dbName st = (st, succeeded)"
    by (simp add: initializePGLite_def)
next
  show "store_run c st \<and> dbInstance st = Some h \<and> currentDbName st \<noteq> Some dbName \<longrightarrow>
        calls (fst (initializePGLite co oo dbName st)) =
          calls st @ [Call_close h] @
            (case co of
               CloseThrows msg \<Rightarrow> []
             | CloseOk \<Rightarrow>
                 (case oo of
                    NewThrows msg \<Rightarrow> [Call_new (''pglite://'' @ dbName)]
                  | _ \<Rightarrow> [Call_new (''pglite://'' @ dbName), Call_waitReady (created st)]))
        \<and> h \<notin> set (live (fst (initializePGLite co oo dbName st)))
        \<and> (success (snd (initializePGLite co oo dbName st)) \<longleftrightarrow> co = CloseOk \<and> oo = Ready)
        \<and> (success (snd (initializePGLite co oo dbName st)) \<longrightarrow>
              snd (initializePGLite co oo dbName st) = succeeded
            \<and> dbInstance (fst (initializePGLite co oo dbName st)) = Some (created st)
            \<and> currentDbName (fst (initializePGLite co oo dbName st)) = Some dbName
            \<and> live (fst (initializePGLite co oo dbName st)) = [created st])
        \<and> (\<not> success (snd (initializePGLite co oo dbName st)) \<longrightarrow>
              (\<exists>msg. snd (initializePGLite co oo dbName st) = failed (''PGLite initialization failed: '' @ msg))
            \<and> dbInstance (fst (initializePGLite co oo dbName st)) = None
            \<and> currentDbName (fst (initializePGLite co oo dbName st)) = None
            \<and> live (fst (initializePGLite co oo dbName st)) = [])"
  proof
    assume a: "store_run c st \<and> dbInstance st = Some h \<and> currentDbName st \<noteq> Some dbName"
    then have "h < created st" using handle_created by blast
    moreover from a have "live st = [h]"
      using one_connection_run [of c st] by (simp add: one_connection_def)
    moreover from a have i: "dbInstance st = Some h" "currentDbName st \<noteq> Some dbName" by simp_all
    ultimately show "calls (fst (initializePGLite co oo dbName st)) =
          calls st @ [Call_close h] @
            (case co of
               CloseThrows msg \<Rightarrow> []
             | CloseOk \<Rightarrow>
                 (case oo of
                    NewThrows msg \<Rightarrow> [Call_new (''pglite://'' @ dbName)]
                  | _ \<Rightarrow> [Call_new (''pglite://'' @ dbName), Call_waitReady (created st)]))
        \<and> h \<notin> set (live (fst (initializePGLite co oo dbName st)))
        \<and> (success (snd (initializePGLite co oo dbName st)) \<longleftrightarrow> co = CloseOk \<and> oo = Ready)
        \<and> (success (snd (initializePGLite co oo dbName st)) \<longrightarrow>
              snd (initializePGLite co oo dbName st) = succeeded
            \<and> dbInstance (fst (initializePGLite co oo dbName st)) = Some (created st)
            \<and> currentDbName (fst (initializePGLite co oo dbName st)) = Some dbName
            \<and> live (fst (initializePGLite co oo dbName st)) = [created st])
        \<and> (\<not> success (snd (initializePGLite co oo dbName st)) \<longrightarrow>
              (\<exists>msg. snd (initializePGLite co oo dbName st) = failed (''PGLite initialization failed: '' @ msg))
            \<and> dbInstance (fst (initializePGLite co oo dbName st)) = None
            \<and> currentDbName (fst (initializePGLite co oo dbName st)) = None
            \<and> live (fst (initializePGLite co oo dbName st)) = [])"
      by (cases co; cases oo)
         (simp_all add: initializePGLite_other [OF i] succeeded_def failed_def)
  qed
qed

lemma example_opened:
  "fst (initializePGLite CloseOk Ready ''a'' (initialStore (\<lambda>h. ()))) = example_opened_store"
  by (simp add: initializePGLite_def pg_open_def initialStore_def example_opened_store_def Let_def)

lemma example_opened_run: "store_run (\<lambda>h. ()) example_opened_store"
  using run_initialize [OF run_start, of "\<lambda>h. ()" CloseOk Ready "''a''"]
  by (simp add: example_opened)

text \<open>
  Open \<open>a\<close>, then open \<open>a\<close> again: nothing changes. Open \<open>b\<close> instead: the first
  connection is closed, the second is the only live one. Open \<open>b\<close> while \<open>close\<close>
  throws: no connection is created, the failure is reported and none is held. And the
  system after its start-up holds none.
\<close>

theorem single_connection_witness:
  "store_run (\<lambda>h. ()) example_opened_store
   \<and> live example_opened_store = [0]
   \<and> initializePGLite CloseOk Ready ''a'' example_opened_store = (example_opened_store, succeeded)
   \<and> calls (fst (initializePGLite CloseOk Ready ''b'' example_opened_store))
       = [Call_new ''pglite://a'', Call_waitReady 0, Call_close 0, Call_new ''pglite://b'', Call_waitReady 1]
   \<and> live (fst (initializePGLite CloseOk Ready ''b'' example_opened_store)) = [1]
   \<and> dbInstance (fst (initializePGLite CloseOk Ready ''b'' example_opened_store)) = Some 1
   \<and> calls (fst (initializePGLite (CloseThrows ''busy'') Ready ''b'' example_opened_store))
       = [Call_new ''pglite://a'', Call_waitReady 0, Call_close 0]
   \<and> snd (initializePGLite (CloseThrows ''busy'') Ready ''b'' example_opened_store)
       = failed ''PGLite initialization failed: busy''
   \<and> dbInstance (fst (initializePGLite (CloseThrows ''busy'') Ready ''b'' example_opened_store)) = None
   \<and> live (fst (initializePGLite (CloseThrows ''busy'') Ready ''b'' example_opened_store)) = []
   \<and> reachable (example_env (Some ''key'')) (\<lambda>h. []) (startup (example_env (Some ''key'')) (initialSys (\<lambda>h. [])))
   \<and> live (store (startup (example_env (Some ''key'')) (initialSys (\<lambda>h. [])))) = []"
proof -
  have f: "dbInstance example_opened_store = Some 0" "currentDbName example_opened_store = Some ''a''"
    "calls example_opened_store = [Call_new ''pglite://a'', Call_waitReady 0]"
    "created example_opened_store = 1" "live example_opened_store = [0]"
    by (simp_all add: example_opened_store_def)
  have t: "snd (initializePGLite (CloseThrows ''busy'') Ready ''b'' example_opened_store)
       = failed ''PGLite initialization failed: busy''"
    by (simp add: initializePGLite_def init_failed_def pg_close_def example_opened_store_def)
  have m: "reachable (example_env (Some ''key'')) (\<lambda>h. []) (startup (example_env (Some ''key'')) (initialSys (\<lambda>h. [])))"
    by (rule reachable.mounted)
  have l: "live (store (startup (example_env (Some ''key'')) (initialSys (\<lambda>h. [])))) = []"
    by (simp add: startup_def initialSys_def initialStore_def store_addLog store_with_ui)
  show ?thesis
    using single_connection [where c = "\<lambda>h. ()" and st = example_opened_store and dbName = "''a''"
          and co = CloseOk and oo = Ready and h = 0 and e = "example_env (Some ''key'')"
          and k = "\<lambda>h. []" and s = "startup (example_env (Some ''key'')) (initialSys (\<lambda>h. []))"]
      single_connection [where c = "\<lambda>h. ()" and st = example_opened_store and dbName = "''b''"
          and co = CloseOk and oo = Ready and h = 0 and e = "example_env (Some ''key'')"
          and k = "\<lambda>h. []" and s = "startup (example_env (Some ''key'')) (initialSys (\<lambda>h. []))"]
      single_connection [where c = "\<lambda>h. ()" and st = example_opened_store and dbName = "''b''"
          and co = "CloseThrows ''busy''" and oo = Ready and h = 0 and e = "example_env (Some ''key'')"
          and k = "\<lambda>h. []" and s = "startup (example_env (Some ''key'')) (initialSys (\<lambda>h. []))"]
    by (simp add: example_opened_run f t m l)
qed

section \<open>The checks of the LLM clients\<close>









text \<open>
  C7, as the code has it: when the LLM service answered and the content of the answer
  is a value that is not an array, \<open>analyzeSchemaWithGemini\<close> returns no analysis and an
  error; the error says that the payload was not in the expected array format when the
  value is truthy (an object, a string that is not empty, a number other than zero,
  \<open>true\<close>), and that the answer could not be parsed when the value is \<open>null\<close>,
  \<open>false\<close>, zero or the empty string.
\<close>

theorem analyzeSchema_not_array:
  assumes "\<not> prepareDataSample_throws n d"
    and "\<not> isArray (parseJsonFromMarkdown parse resp)"
  shows "analyzeSchemaWithGemini True parse n d fileName (Responded resp) =
           Inr \<lparr>error = Some (if truthy (parseJsonFromMarkdown parse resp)
                               then ''LLM response for schema analysis was not in the expected array format.''
                               else ''Failed to parse schema analysis from LLM response.''),
                analysis = None\<rparr>"
  using assms
  by (cases "parseJsonFromMarkdown parse resp")
     (simp_all add: analyzeSchemaWithGemini_def prepareDataSample_throws_def)

lemma object_text_parsed:
  "parseJsonFromMarkdown JSON_parse_ref example_object_text = JObj [(''columnName'', JStr ''a'')]"
  by code_simp

lemma null_text_parsed: "parseJsonFromMarkdown JSON_parse_ref ''null'' = JNull"
  by code_simp

lemma null_parsed: "JSON_parse_ref ''null'' = Some JNull"
  by code_simp

lemma sample_ok: "\<not> prepareDataSample_throws 20 [JObj []]"
  by code_simp

text \<open>An answer that is a single object is refused as not being an array.\<close>

theorem analyzeSchema_not_array_witness:
  "analyzeSchemaWithGemini True JSON_parse_ref 20 [JObj []] ''people.csv'' (Responded example_object_text) =
     Inr \<lparr>error = Some ''LLM response for schema analysis was not in the expected array format.'',
          analysis = None\<rparr>"
  using analyzeSchema_not_array [of 20 "[JObj []]" JSON_parse_ref example_object_text "''people.csv''"]
  by (simp add: object_text_parsed sample_ok)

text \<open>
  C7 as stated fails: the answer \<open>null\<close> parses to a value that is not an array, and the
  error is the one of a failed parse, not the one of a payload that is not an array.
\<close>

theorem analyzeSchema_not_array_counterexample:
  "JSON_parse_ref ''null'' = Some JNull \<and> \<not> isArray JNull
   \<and> analyzeSchemaWithGemini True JSON_parse_ref 20 [JObj []] ''people.csv'' (Responded ''null'')
       = Inr \<lparr>error = Some ''Failed to parse schema analysis from LLM response.'', analysis = None\<rparr>"
  using sample_ok
  by (simp add: null_parsed analyzeSchemaWithGemini_def null_text_parsed prepareDataSample_throws_def)

section \<open>The shape of the parsed rows\<close>






section \<open>The orchestrator\<close>

lemma nat_toString_nonempty: "nat_toString n \<noteq> []"
  by (subst nat_toString.simps) simp

lemma addLog_simps [simp]:
  "etlLogs (ui (addLog e m t s)) = etlLogs (ui s) @
     [\<lparr>log_id = nat_toString (clock e (readings s)),
       timestamp = toLocaleTimeString e (clock e (Suc (readings s))), message = m, log_type = t\<rparr>]"
  "store (addLog e m t s) = store s"
  "readings (addLog e m t s) = readings s + 2"
  "currentStep (ui (addLog e m t s)) = currentStep (ui s)"
  "globalError (ui (addLog e m t s)) = globalError (ui s)"
  "appDbName (ui (addLog e m t s)) = appDbName (ui s)"
  "file_st (ui (addLog e m t s)) = file_st (ui s)"
  "rawDataPreview (ui (addLog e m t s)) = rawDataPreview (ui s)"
  "fullParsedData (ui (addLog e m t s)) = fullParsedData (ui s)"
  "schemaAnalysis (ui (addLog e m t s)) = schemaAnalysis (ui s)"
  "generatedCreateTableSql (ui (addLog e m t s)) = generatedCreateTableSql (ui s)"
  "dbDataPreview (ui (addLog e m t s)) = dbDataPreview (ui s)"
  "pgliteStatus (ui (addLog e m t s)) = pgliteStatus (ui s)"
  by (simp_all add: addLog_def Let_def)

lemma with_ui_simps [simp]:
  "ui (with_ui f s) = f (ui s)"
  "store (with_ui f s) = store s"
  "readings (with_ui f s) = readings s"
  by (simp_all add: with_ui_def)

subsection \<open>The log only grows\<close>

lemma grows_refl [simp, intro]: "log_grows s s"
  by (simp add: log_grows_def)

lemma grows_trans: "log_grows s s1 \<Longrightarrow> log_grows s1 s2 \<Longrightarrow> log_grows s s2"
  unfolding log_grows_def by (rule prefix_order.trans)

lemma grows_addLog [intro]: "log_grows s s1 \<Longrightarrow> log_grows s (addLog e m t s1)"
  unfolding log_grows_def by (simp add: prefix_def) auto

lemma grows_with_ui: "etlLogs (f (ui s1)) = etlLogs (ui s1) \<Longrightarrow> log_grows s s1 \<Longrightarrow> log_grows s (with_ui f s1)"
  by (simp add: log_grows_def)

lemma grows_store [intro]: "log_grows s s1 \<Longrightarrow> log_grows s (s1\<lparr>store := x\<rparr>)"
  by (simp add: log_grows_def)

lemma grows_readings [intro]: "log_grows s s1 \<Longrightarrow> log_grows s (s1\<lparr>readings := x\<rparr>)"
  by (simp add: log_grows_def)

lemma resetState_logs:
  "etlLogs (ui (resetState e co s)) = etlLogs (ui s) @
     [\<lparr>log_id = nat_toString (clock e (readings s)),
       timestamp = toLocaleTimeString e (clock e (Suc (readings s))),
       message = ''State reset. Ready for new file upload.'', log_type = LogInfo\<rparr>]"
  by (simp add: resetState_def Let_def)

lemma resetState_readings: "readings (resetState e co s) = readings s + 2"
  by (simp add: resetState_def Let_def)

lemma grows_upload_failed: "log_grows s s1 \<Longrightarrow> log_grows s (upload_failed e m s1)"
  unfolding upload_failed_def by (intro grows_with_ui grows_addLog) simp_all

lemma grows_db_failed: "log_grows s s1 \<Longrightarrow> log_grows s (db_failed e w m s1)"
  unfolding db_failed_def by (intro grows_with_ui grows_addLog) simp_all

lemma grows_resetState: "log_grows s s1 \<Longrightarrow> log_grows s (resetState e co s1)"
  unfolding resetState_def Let_def
  by (intro grows_addLog grows_with_ui) (auto intro!: grows_with_ui)

lemma grows_upload_analyzed: "log_grows s s1 \<Longrightarrow> log_grows s (upload_analyzed e f p outcome s1)"
  unfolding upload_analyzed_def
  by (auto split: sum.splits intro!: grows_upload_failed grows_with_ui)

lemma grows_upload_parsed: "log_grows s s1 \<Longrightarrow> log_grows s (upload_parsed e f p outcome s1)"
  unfolding upload_parsed_def Let_def
  by (auto intro!: grows_upload_analyzed grows_with_ui grows_addLog)

lemma grows_handleFileUpload: "log_grows s s1 \<Longrightarrow> log_grows s (handleFileUpload e f content outcome co s1)"
  unfolding handleFileUpload_def Let_def
  by (auto split: sum.splits intro!: grows_upload_failed grows_upload_parsed grows_with_ui grows_addLog grows_resetState)

lemma grows_handleGenerateSql: "log_grows s s1 \<Longrightarrow> log_grows s (handleGenerateSql e outcome s1)"
  unfolding handleGenerateSql_def Let_def
  by (auto split: option.splits intro!: grows_with_ui grows_addLog)

lemma grows_process_preview: "log_grows s s1 \<Longrightarrow> log_grows s (process_preview e t s1)"
  unfolding process_preview_def process_done_def preview_failed_def Let_def
  by (auto split: option.splits prod.splits intro!: grows_with_ui grows_addLog)

lemma grows_process_insert: "log_grows s s1 \<Longrightarrow> log_grows s (process_insert e t rows s1)"
  unfolding process_insert_def Let_def
  by (auto split: sum.splits prod.splits intro!: grows_process_preview grows_db_failed grows_addLog)

lemma grows_process_create: "log_grows s s1 \<Longrightarrow> log_grows s (process_create e q f rows s1)"
  unfolding process_create_def Let_def
  by (auto split: prod.splits intro!: grows_process_insert grows_db_failed grows_addLog)

lemma grows_handleProcess: "log_grows s s1 \<Longrightarrow> log_grows s (handleProcessWithPGLite e co oo s1)"
  unfolding handleProcessWithPGLite_def Let_def
  by (auto split: option.splits prod.splits
      intro!: grows_process_create grows_with_ui grows_addLog grows_store grows_readings)

lemma grows_reachable_step:
  "log_grows s (resetState e co s)" "log_grows s (handleFileUpload e f content outcome co s)"
  "log_grows s (handleGenerateSql e outcome s)" "log_grows s (handleProcessWithPGLite e co oo s)"
  by (simp_all add: grows_resetState grows_handleFileUpload grows_handleGenerateSql grows_handleProcess)

subsection \<open>Missing key\<close>

lemma missing_upload: "isApiKeyMissing e \<Longrightarrow> handleFileUpload e f content outcome co s = s"
  by (simp add: handleFileUpload_def)



lemma resetState_ui:
  "currentStep (ui (resetState e co s)) = (if isApiKeyMissing e then Error else Upload)"
  "globalError (ui (resetState e co s)) = (if isApiKeyMissing e then globalError (ui s) else None)"
  "file_st (ui (resetState e co s)) = None"
  "rawDataPreview (ui (resetState e co s)) = None"
  "fullParsedData (ui (resetState e co s)) = None"
  "schemaAnalysis (ui (resetState e co s)) = None"
  "generatedCreateTableSql (ui (resetState e co s)) = None"
  "dbDataPreview (ui (resetState e co s)) = None"
  "appDbName (ui (resetState e co s)) = None"
  "pgliteStatus (ui (resetState e co s)) = Inactive"
  by (simp_all add: resetState_def Let_def)

lemma resetState_store:
  "store (resetState e co s) = (if truthy_str (appDbName (ui s)) then closePGLite co (store s) else store s)"
  by (simp add: resetState_def Let_def)



lemma example_missing: "isApiKeyMissing (example_env None)"
  by (simp add: isApiKeyMissing_def example_env_def)




subsection \<open>Reset\<close>

lemma dbInstance_closePGLite: "dbInstance (closePGLite co st) = None"
  by (simp add: closePGLite_def split: option.splits)

lemma named_reset: "named_connection s \<Longrightarrow> dbInstance (store (resetState e co s)) = None"
  by (auto simp: named_connection_def resetState_store dbInstance_closePGLite)

lemma upload_analyzed_store: "store (upload_analyzed e f p outcome s) = store s"
  by (simp add: upload_analyzed_def upload_failed_def split: sum.splits)

lemma upload_parsed_store: "store (upload_parsed e f p outcome s) = store s"
  by (simp add: upload_parsed_def Let_def upload_analyzed_store)

lemma upload_store:
  "store (handleFileUpload e f content outcome co s) = (if isApiKeyMissing e then store s else store (resetState e co s))"
  by (simp add: handleFileUpload_def Let_def upload_failed_def upload_parsed_store split: sum.splits)

lemma generate_store: "store (handleGenerateSql e outcome s) = store s"
  by (simp add: handleGenerateSql_def Let_def split: option.splits)

lemma generate_appDbName: "appDbName (ui (handleGenerateSql e outcome s)) = appDbName (ui s)"
  by (simp add: handleGenerateSql_def Let_def split: option.splits)

lemma preview_appDbName: "appDbName (ui (process_preview e t s)) = appDbName (ui s)"
  by (simp add: process_preview_def process_done_def preview_failed_def Let_def
      split: option.splits prod.splits)

lemma insert_appDbName: "appDbName (ui (process_insert e t rows s)) = appDbName (ui s)"
  by (simp add: process_insert_def Let_def db_failed_def preview_appDbName split: prod.splits sum.splits)

lemma create_appDbName: "appDbName (ui (process_create e q f rows s)) = appDbName (ui s)"
  by (simp add: process_create_def Let_def db_failed_def insert_appDbName split: prod.splits)

lemma process_appDbName:
  "handleProcessWithPGLite e co oo s = s \<or> truthy_str (appDbName (ui (handleProcessWithPGLite e co oo s)))"
  by (simp add: handleProcessWithPGLite_def Let_def create_appDbName truthy_str_def nat_toString_nonempty
      split: option.splits prod.splits)

lemma named_reachable: "reachable e c s \<Longrightarrow> named_connection s"
proof (induction rule: reachable.induct)
  case mounted
  show ?case by (simp add: named_connection_def startup_def initialSys_def initialStore_def)
next
  case (reset s co)
  then show ?case using named_reset [of s e co] by (simp add: named_connection_def)
next
  case (upload s f content outcome co)
  show ?case
  proof (cases "isApiKeyMissing e")
    case True
    with upload show ?thesis by (simp add: missing_upload)
  next
    case False
    with upload show ?thesis using named_reset [of s e co] by (simp add: named_connection_def upload_store)
  qed
next
  case (generate s outcome)
  then show ?case by (simp add: named_connection_def generate_store generate_appDbName)
next
  case (process s co oo)
  then show ?case using process_appDbName [of e co oo s] by (auto simp: named_connection_def)
qed




lemma closePGLite_calls:
  "calls (closePGLite co st) = calls st @ (case dbInstance st of None \<Rightarrow> [] | Some h \<Rightarrow> [Call_close h])"
  by (simp add: closePGLite_def pg_close_def split: option.splits close_outcome.splits)

lemma closePGLite_live:
  "live (closePGLite co st) = (case dbInstance st of None \<Rightarrow> live st | Some h \<Rightarrow> removeAll h (live st))"
  by (simp add: closePGLite_def pg_close_def split: option.splits)

text \<open>
  C9, as the code has it: in every state the system can be in, and more generally in
  every state in which the component holds a database name while the store holds a
  connection, \<open>resetState\<close> leaves the store without a connection; it
  calls \<open>close\<close> once when a connection was open and makes no call otherwise, and
  a second reset makes no further call; when \<open>close\<close> returns, the connection is no
  longer live. It clears the file, the parsed rows, the schema analysis, the generated
  SQL and the database preview. It clears the current error and returns to Upload when
  the API key is present; when the key is missing it keeps the error and stays in Error.
  The log is the log before with one reset entry at its end.
\<close>

theorem resetState_effect:
  assumes "reachable e c s \<or> named_connection s"
  shows "(let s' = resetState e co s in
          dbInstance (store s') = None
        \<and> calls (store s') = calls (store s) @ (case dbInstance (store s) of None \<Rightarrow> [] | Some h \<Rightarrow> [Call_close h])
        \<and> (co = CloseOk \<longrightarrow> (\<forall>h. dbInstance (store s) = Some h \<longrightarrow> h \<notin> set (live (store s'))))
        \<and> calls (store (resetState e co' s')) = calls (store s')
        \<and> file_st (ui s') = None \<and> rawDataPreview (ui s') = None \<and> fullParsedData (ui s') = None
        \<and> schemaAnalysis (ui s') = None \<and> generatedCreateTableSql (ui s') = None
        \<and> dbDataPreview (ui s') = None
        \<and> globalError (ui s') = (if isApiKeyMissing e then globalError (ui s) else None)
        \<and> currentStep (ui s') = (if isApiKeyMissing e then Error else Upload)
        \<and> etlLogs (ui s') = etlLogs (ui s) @
             [\<lparr>log_id = nat_toString (clock e (readings s)),
               timestamp = toLocaleTimeString e (clock e (Suc (readings s))),
               message = ''State reset. Ready for new file upload.'', log_type = LogInfo\<rparr>])"
proof -
  from assms have named: "named_connection s"
    using named_reachable by blast
  have 1: "dbInstance (store (resetState e co s)) = None"
    using named by (rule named_reset)
  have 2: "calls (store (resetState e co s)) =
             calls (store s) @ (case dbInstance (store s) of None \<Rightarrow> [] | Some h \<Rightarrow> [Call_close h])"
    using named by (auto simp: resetState_store closePGLite_calls named_connection_def)
  have 3: "co = CloseOk \<longrightarrow> (\<forall>h. dbInstance (store s) = Some h \<longrightarrow> h \<notin> set (live (store (resetState e co s))))"
    using named by (auto simp: resetState_store closePGLite_live named_connection_def)
  have 4: "calls (store (resetState e co' (resetState e co s))) = calls (store (resetState e co s))"
    by (simp add: resetState_store [of e co' "resetState e co s"] resetState_ui truthy_str_def)
  show ?thesis
    unfolding Let_def using 1 2 3 4 by (simp add: resetState_ui resetState_logs)
qed

lemma example_done_named: "named_connection example_done"
  by (simp add: named_connection_def example_done_def truthy_str_def)

lemma example_present: "\<not> isApiKeyMissing (example_env (Some ''key''))"
  by (simp add: isApiKeyMissing_def example_env_def)

text \<open>Reset at the end of a run: one call of \<open>close\<close>, no second one, everything cleared.\<close>

theorem resetState_effect_witness:
  "named_connection example_done
   \<and> currentStep (ui example_done) = Done
   \<and> calls (store (resetState (example_env (Some ''key'')) CloseOk example_done)) = [Call_close 0]
   \<and> live (store (resetState (example_env (Some ''key'')) CloseOk example_done)) = []
   \<and> calls (store (resetState (example_env (Some ''key'')) CloseOk
              (resetState (example_env (Some ''key'')) CloseOk example_done))) = [Call_close 0]
   \<and> file_st (ui (resetState (example_env (Some ''key'')) CloseOk example_done)) = None
   \<and> globalError (ui (resetState (example_env (Some ''key'')) CloseOk example_done)) = None
   \<and> currentStep (ui (resetState (example_env (Some ''key'')) CloseOk example_done)) = Upload
   \<and> map message (etlLogs (ui (resetState (example_env (Some ''key'')) CloseOk example_done)))
       = [''ETL process completed.'', ''State reset. Ready for new file upload.'']"
proof -
  have live: "live (store (resetState (example_env (Some ''key'')) CloseOk example_done)) = []"
    by (simp add: resetState_store closePGLite_live example_done_def example_store_def truthy_str_def)
  show ?thesis
    using resetState_effect [where s = example_done and e = "example_env (Some ''key'')"
        and co = CloseOk and co' = CloseOk, OF disjI2 [OF example_done_named]] live
    by (simp add: Let_def example_done_named example_present)
       (simp add: example_done_def example_store_def)
qed

text \<open>
  C9 as stated fails: without a key the pipeline is in the Error state after the
  start-up check, and a reset does not clear the current error.
\<close>

theorem resetState_effect_counterexample:
  "currentStep (ui (startup (example_env None) (initialSys (\<lambda>h. [])))) = Error
   \<and> globalError (ui (resetState (example_env None) CloseOk (startup (example_env None) (initialSys (\<lambda>h. [])))))
       = Some ''Gemini API Key is not configured. Please set the process.env.API_KEY environment variable.''"
  by (simp add: resetState_ui example_missing startup_def)



lemma handleFileUpload_ids:
  assumes "\<not> isApiKeyMissing e"
  shows "prefix (map log_id (etlLogs (ui s)) @
                   [nat_toString (clock e (readings s)), nat_toString (clock e (readings s + 2))])
                (map log_id (etlLogs (ui (handleFileUpload e f content outcome co s))))"
proof -
  define s1 where "s1 = with_ui (\<lambda>u. u\<lparr>file_st := Some f, currentStep := AnalyzingSchema\<rparr>)
                    (addLog e (''File '' @ dquote @ file_name f @ dquote @ '' selected. Type: ''
                               @ file_type f @ ''. Size: ''
                               @ nat_toString (file_size f) @ '' bytes.'') LogInfo
                       (resetState e co s))"
  have ids: "map log_id (etlLogs (ui s1)) = map log_id (etlLogs (ui s)) @
                   [nat_toString (clock e (readings s)), nat_toString (clock e (readings s + 2))]"
    by (simp add: s1_def resetState_logs resetState_readings)
  have "handleFileUpload e f content outcome co s =
          (case parseData (JSON_parse e) (Papa_parse e) (file_name f) content of
             Inl msg \<Rightarrow> upload_failed e msg s1
           | Inr parsed \<Rightarrow> upload_parsed e f parsed outcome s1)"
    unfolding handleFileUpload_def Let_def s1_def using assms by (simp only: if_False)
  then have "log_grows s1 (handleFileUpload e f content outcome co s)"
    by (auto split: sum.splits intro: grows_upload_failed grows_upload_parsed)
  then have "prefix (map log_id (etlLogs (ui s1)))
               (map log_id (etlLogs (ui (handleFileUpload e f content outcome co s))))"
    unfolding log_grows_def by (rule map_mono_prefix)
  then show ?thesis by (simp only: ids)
qed

lemma nat_toString_1000: "nat_toString 1000 = ''1000''"
  by (simp add: nat_toString.simps digit_def)

text \<open>
  C10 at a concrete input: a file is uploaded while the clock shows the same millisecond
  for the reset entry and for the entry of the selected file, the two entries that
  \<open>handleFileUpload\<close> appends one after the other. Both get the id \<open>1000\<close>: the ids
  of the log are not unique. (The log itself only grows, see \<open>grows_reachable_step\<close>.)
\<close>

theorem log_ids_collide:
  "prefix [''1000'', ''1000'']
     (map log_id (etlLogs (ui (handleFileUpload (example_env (Some ''key'')) example_file example_csv
        (Responded ''[]'') CloseOk (startup (example_env (Some ''key'')) (initialSys (\<lambda>h. [])))))))
   \<and> \<not> distinct (map log_id (etlLogs (ui (handleFileUpload (example_env (Some ''key'')) example_file example_csv
        (Responded ''[]'') CloseOk (startup (example_env (Some ''key'')) (initialSys (\<lambda>h. [])))))))"
proof -
  let ?e = "example_env (Some ''key'')"
  let ?s = "startup ?e (initialSys (\<lambda>h. []))"
  let ?ids = "map log_id (etlLogs (ui (handleFileUpload ?e example_file example_csv (Responded ''[]'') CloseOk ?s)))"
  have s: "?s = initialSys (\<lambda>h. [])"
    by (simp add: startup_def example_present)
  have r: "readings ?s = 0" and l: "etlLogs (ui ?s) = []"
    unfolding s by (simp_all add: initialSys_def initialState_def)
  have c: "clock ?e 0 = 1000" "clock ?e 2 = 1000"
    by (simp_all add: example_env_def)
  have "prefix (map log_id (etlLogs (ui ?s)) @
                   [nat_toString (clock ?e (readings ?s)), nat_toString (clock ?e (readings ?s + 2))]) ?ids"
    by (rule handleFileUpload_ids [OF example_present])
  then have p: "prefix [''1000'', ''1000''] ?ids"
    unfolding r l by (simp only: c nat_toString_1000 list.map append_Nil add_0)
  then obtain rest where "?ids = [''1000'', ''1000''] @ rest"
    by (auto simp: prefix_def)
  then have "\<not> distinct ?ids" by simp
  with p show ?thesis by simp
qed

section \<open>The reference parser reads back what the printer prints\<close>

lemma hex_round: "k < 16 \<Longrightarrow> hex_value (hex_digit k) = Some k"
proof -
  have "\<forall>k \<in> set [0..<16]. hex_value (hex_digit k) = Some k"
    by code_simp
  then show "k < 16 \<Longrightarrow> hex_value (hex_digit k) = Some k" by simp
qed

lemma hex_zero: "hex_value (CHR ''0'') = Some 0"
  by (simp add: hex_value_def)

text \<open>Every character comes back from its escaped form.\<close>

lemma string_body_escape:
  "string_body (escape_char ch @ r) =
     (case string_body r of None \<Rightarrow> None | Some (b, r') \<Rightarrow> Some (ch # b, r'))"
proof -
  consider (special) "ch \<in> set [CHR 0x22, CHR 0x5C, CHR 0x08, CHR 0x09, CHR 0x0A, CHR 0x0C, CHR 0x0D]"
    | (control) "ch \<notin> set [CHR 0x22, CHR 0x5C, CHR 0x08, CHR 0x09, CHR 0x0A, CHR 0x0C, CHR 0x0D]"
        "(of_char ch :: nat) < 32"
    | (plain) "ch \<notin> set [CHR 0x22, CHR 0x5C, CHR 0x08, CHR 0x09, CHR 0x0A, CHR 0x0C, CHR 0x0D]"
        "\<not> (of_char ch :: nat) < 32"
    by blast
  then show ?thesis
  proof cases
    case special
    then show ?thesis
      by (auto simp: escape_char_def unescape_def split: option.splits)
  next
    case control
    then have d: "(of_char ch :: nat) div 16 < 16" "(of_char ch :: nat) mod 16 < 16" by simp_all
    have c: "char_of ((of_char ch :: nat) div 16 * 16 + of_char ch mod 16) = ch" by simp
    from control show ?thesis
      by (simp add: escape_char_def hex_zero hex_round [OF d(1)] hex_round [OF d(2)] c
          split: option.splits)
  next
    case plain
    then show ?thesis
      by (simp add: escape_char_def split: option.splits)
  qed
qed

lemma string_body_quote: "string_body (concat (map escape_char t) @ dquote @ r) = Some (t, r)"
  by (induction t) (simp_all add: dquote_def string_body_escape del: string_body.simps,
      simp add: dquote_def)


lemma skip_ws_id: "t \<noteq> [] \<Longrightarrow> hd t \<notin> set [CHR 0x20, CHR 0x09, CHR 0x0A, CHR 0x0D] \<Longrightarrow> skip_ws t = t"
  by (cases t) (auto simp: skip_ws_def json_ws_def)

lemma parsesD:
  assumes "parses v"
  shows "JSON_stringify v \<noteq> []"
    and "skip_ws (JSON_stringify v @ r) = JSON_stringify v @ r"
    and "hd (JSON_stringify v @ r) \<noteq> CHR '']''" and "hd (JSON_stringify v @ r) \<noteq> CHR ''}''"
    and "length (JSON_stringify v) \<le> n \<Longrightarrow> parse_value n (JSON_stringify v @ r) = Some (v, r)"
proof -
  from assms show ne: "JSON_stringify v \<noteq> []" by (simp add: parses_def)
  from assms have h: "hd (JSON_stringify v) \<notin> set [CHR 0x20, CHR 0x09, CHR 0x0A, CHR 0x0D, CHR '']'', CHR ''}'']"
    by (simp add: parses_def)
  with ne show "skip_ws (JSON_stringify v @ r) = JSON_stringify v @ r"
    by (intro skip_ws_id) auto
  from h ne show "hd (JSON_stringify v @ r) \<noteq> CHR '']''" "hd (JSON_stringify v @ r) \<noteq> CHR ''}''"
    by auto
  from assms show "length (JSON_stringify v) \<le> n \<Longrightarrow> parse_value n (JSON_stringify v @ r) = Some (v, r)"
    by (simp add: parses_def)
qed

lemma parse_elements_last:
  "parse_value m t = Some (v, CHR '']'' # r) \<Longrightarrow> parse_elements (Suc m) t = Some ([v], r)"
  by (simp add: skip_ws_def json_ws_def)

lemma parse_elements_more:
  "parse_value m t = Some (v, CHR '','' # t') \<Longrightarrow> skip_ws t' = t' \<Longrightarrow>
     parse_elements m t' = Some (vs, r) \<Longrightarrow> parse_elements (Suc m) t = Some (v # vs, r)"
  by (simp add: skip_ws_def json_ws_def)

lemma parse_elements_join:
  assumes "xs \<noteq> []" and "\<forall>x \<in> set xs. parses x"
    and "length (join '','' (map JSON_stringify xs)) < n"
  shows "parse_elements n (join '','' (map JSON_stringify xs) @ CHR '']'' # r) = Some (xs, r)"
  using assms
proof (induction xs arbitrary: n)
  case Nil
  then show ?case by simp
next
  case (Cons x xs)
  then obtain m where n: "n = Suc m" by (cases n) auto
  from Cons.prems have px: "parses x" by simp
  show ?case
  proof (cases xs)
    case Nil
    with Cons.prems n have "length (JSON_stringify x) \<le> m" by simp
    then have "parse_value m (JSON_stringify x @ CHR '']'' # r) = Some (x, CHR '']'' # r)"
      by (rule parsesD(5) [OF px])
    then show ?thesis
      unfolding n using Nil by (simp add: parse_elements_last del: parse_elements.simps)
  next
    case (Cons y ys)
    define J where "J = join '','' (map JSON_stringify xs)"
    have j: "join '','' (map JSON_stringify (x # xs)) = JSON_stringify x @ CHR '','' # J"
      by (simp add: Cons J_def)
    then have "length (join '','' (map JSON_stringify (x # xs))) = length (JSON_stringify x) + 1 + length J"
      by simp
    with Cons.prems(3) n have "length (JSON_stringify x) + 1 + length J < Suc m"
      by (simp only:)
    moreover have "0 < length (JSON_stringify x)"
      using parsesD(1) [OF px] by simp
    ultimately have len: "length (JSON_stringify x) \<le> m" "length J < m"
      by linarith+
    have 1: "parse_value m (JSON_stringify x @ CHR '','' # J @ CHR '']'' # r) = Some (x, CHR '','' # J @ CHR '']'' # r)"
      using len(1) by (rule parsesD(5) [OF px])
    from \<open>\<forall>x \<in> set (x # xs). parses x\<close> Cons have py: "parses y" by simp
    have "J @ CHR '']'' # r = JSON_stringify y @ (drop (length (JSON_stringify y)) J @ CHR '']'' # r)"
      unfolding J_def Cons by (cases ys) simp_all
    then have 2: "skip_ws (J @ CHR '']'' # r) = J @ CHR '']'' # r"
      using parsesD(2) [OF py] by metis
    have 3: "parse_elements m (J @ CHR '']'' # r) = Some (xs, r)"
      unfolding J_def using Cons.IH [of m] Cons.prems(2) len(2) Cons by (simp add: J_def)
    have "parse_elements (Suc m) ((JSON_stringify x @ CHR '','' # J) @ CHR '']'' # r) = Some (x # xs, r)"
      using 1 2 3 by (intro parse_elements_more) simp_all
    then show ?thesis by (simp only: j n)
  qed
qed


lemma parse_members_last:
  "string_body t0 = Some (k, CHR '':'' # t2) \<Longrightarrow> skip_ws t2 = t2 \<Longrightarrow>
     parse_value m t2 = Some (v, CHR ''}'' # r) \<Longrightarrow>
     parse_members (Suc m) (CHR 0x22 # t0) = Some ([(k, v)], r)"
  by (simp add: skip_ws_def json_ws_def)

lemma parse_members_more:
  "string_body t0 = Some (k, CHR '':'' # t2) \<Longrightarrow> skip_ws t2 = t2 \<Longrightarrow>
     parse_value m t2 = Some (v, CHR '','' # t4) \<Longrightarrow> skip_ws t4 = t4 \<Longrightarrow>
     parse_members m t4 = Some (kvs, r) \<Longrightarrow>
     parse_members (Suc m) (CHR 0x22 # t0) = Some ((k, v) # kvs, r)"
  by (simp add: skip_ws_def json_ws_def)

lemma quote_Cons: "quote k @ t = CHR 0x22 # (concat (map escape_char k) @ dquote @ t)"
  by (simp add: quote_def dquote_def)

lemma parse_members_join:
  fixes kvs :: "(string \<times> json) list"
  defines "M \<equiv> (\<lambda>kv. quote (fst kv) @ '':'' @ JSON_stringify (snd kv))"
  assumes "kvs \<noteq> []" and "\<forall>kv \<in> set kvs. parses (snd kv)"
    and "length (join '','' (map M kvs)) < n"
  shows "parse_members n (join '','' (map M kvs) @ CHR ''}'' # r) = Some (kvs, r)"
  using assms(2-)
proof (induction kvs arbitrary: n)
  case Nil
  then show ?case by simp
next
  case (Cons kv kvs)
  obtain k v where kv: "kv = (k, v)" by (cases kv)
  from Cons.prems obtain m where n: "n = Suc m" by (cases n) auto
  from Cons.prems kv have pv: "parses v" by simp
  have Mkv: "M kv @ t = CHR 0x22 # (concat (map escape_char k) @ dquote @ (CHR '':'' # JSON_stringify v @ t))" for t
    by (simp add: M_def kv quote_def dquote_def)
  have lenM: "length (JSON_stringify v) < length (M kv)"
    by (simp add: M_def kv quote_def dquote_def)
  show ?case
  proof (cases kvs)
    case Nil
    with Cons.prems(3) n lenM have "length (JSON_stringify v) \<le> m" by simp
    then have "parse_value m (JSON_stringify v @ CHR ''}'' # r) = Some (v, CHR ''}'' # r)"
      by (rule parsesD(5) [OF pv])
    then have "parse_members (Suc m) (CHR 0x22 # (concat (map escape_char k) @ dquote
                 @ (CHR '':'' # JSON_stringify v @ CHR ''}'' # r))) = Some ([(k, v)], r)"
      by (intro parse_members_last) (simp_all add: string_body_quote parsesD(2) [OF pv])
    then show ?thesis
      unfolding n using Nil by (simp add: Mkv [symmetric] kv del: parse_members.simps)
  next
    case (Cons kv' kvs')
    define J where "J = join '','' (map M kvs)"
    have j: "join '','' (map M (kv # kvs)) = M kv @ CHR '','' # J"
      by (simp add: Cons J_def)
    then have "length (join '','' (map M (kv # kvs))) = length (M kv) + 1 + length J"
      by simp
    with Cons.prems(3) n have "length (M kv) + 1 + length J < Suc m"
      by (simp only:)
    with lenM have len: "length (JSON_stringify v) \<le> m" "length J < m"
      by linarith+
    have 1: "parse_value m (JSON_stringify v @ CHR '','' # J @ CHR ''}'' # r)
               = Some (v, CHR '','' # J @ CHR ''}'' # r)"
      using len(1) by (rule parsesD(5) [OF pv])
    have "\<exists>t. J @ CHR ''}'' # r = CHR 0x22 # t"
      unfolding J_def Cons by (cases kvs') (simp_all add: M_def quote_def dquote_def)
    then obtain t where "J @ CHR ''}'' # r = CHR 0x22 # t" ..
    then have 2: "skip_ws (J @ CHR ''}'' # r) = J @ CHR ''}'' # r"
      by (simp add: skip_ws_def json_ws_def)
    have 3: "parse_members m (J @ CHR ''}'' # r) = Some (kvs, r)"
      unfolding J_def using Cons.IH [of m] Cons.prems(2) len(2) Cons by (simp add: J_def)
    have "parse_members (Suc m) (CHR 0x22 # (concat (map escape_char k) @ dquote
             @ (CHR '':'' # JSON_stringify v @ CHR '','' # J @ CHR ''}'' # r))) = Some ((k, v) # kvs, r)"
      using 1 2 3
      by (intro parse_members_more) (simp_all add: string_body_quote parsesD(2) [OF pv])
    then show ?thesis
      unfolding n j by (simp add: Mkv [symmetric] kv del: parse_members.simps)
  qed
qed


lemma parses_JNull: "parses JNull"
proof -
  have "parse_value n (''null'' @ r) = Some (JNull, r)" if "4 \<le> n" for n r
    using that by (cases n) (simp_all add: startsWith_def)
  then show ?thesis by (simp add: parses_def)
qed

lemma parses_JBool: "parses (JBool b)"
proof -
  have "parse_value n (''true'' @ r) = Some (JBool True, r)" if "4 \<le> n" for n r
    using that by (cases n) (simp_all add: startsWith_def)
  moreover have "parse_value n (''false'' @ r) = Some (JBool False, r)" if "5 \<le> n" for n r
    using that by (cases n) (simp_all add: startsWith_def)
  ultimately show ?thesis by (cases b) (simp_all add: parses_def)
qed

lemma parses_JStr: "parses (JStr t)"
proof -
  have "parse_value n (quote t @ r) = Some (JStr t, r)" if "0 < n" for n r
  proof -
    from that obtain m where "n = Suc m" by (cases n) auto
    then show ?thesis
      by (simp add: quote_Cons startsWith_def string_body_quote)
  qed
  then show ?thesis by (simp add: parses_def quote_def dquote_def)
qed

lemma parses_JArr:
  assumes "\<forall>x \<in> set xs. parses x"
  shows "parses (JArr xs)"
proof -
  have "parse_value n (JSON_stringify (JArr xs) @ r) = Some (JArr xs, r)"
    if "length (JSON_stringify (JArr xs)) \<le> n" for n r
  proof -
    from that obtain m where n: "n = Suc m" by (cases n) auto
    show ?thesis
    proof (cases xs)
      case Nil
      then show ?thesis by (simp add: n startsWith_def skip_ws_def json_ws_def)
    next
      case (Cons y ys)
      define J where "J = join '','' (map JSON_stringify xs)"
      have t: "JSON_stringify (JArr xs) @ r = CHR ''['' # J @ CHR '']'' # r"
        by (simp add: J_def)
      from assms Cons have py: "parses y" by simp
      have "J @ CHR '']'' # r = JSON_stringify y @ (drop (length (JSON_stringify y)) J @ CHR '']'' # r)"
        unfolding J_def Cons by (cases ys) simp_all
      then have sk: "skip_ws (J @ CHR '']'' # r) = J @ CHR '']'' # r"
        and hd: "hd (J @ CHR '']'' # r) \<noteq> CHR '']''"
        using parsesD(2,3) [OF py] by metis+
      from that n have "length J < m" by (simp add: J_def)
      with assms Cons have "parse_elements m (J @ CHR '']'' # r) = Some (xs, r)"
        unfolding J_def by (intro parse_elements_join) simp_all
      with sk hd show ?thesis
        unfolding t n by (simp add: startsWith_def del: parse_elements.simps)
    qed
  qed
  then show ?thesis by (simp add: parses_def)
qed

lemma parses_JObj:
  assumes "\<forall>kv \<in> set kvs. parses (snd kv)"
  shows "parses (JObj kvs)"
proof -
  have "parse_value n (JSON_stringify (JObj kvs) @ r) = Some (JObj kvs, r)"
    if "length (JSON_stringify (JObj kvs)) \<le> n" for n r
  proof -
    from that obtain m where n: "n = Suc m" by (cases n) auto
    show ?thesis
    proof (cases kvs)
      case Nil
      then show ?thesis by (simp add: n startsWith_def skip_ws_def json_ws_def)
    next
      case (Cons kv kvs')
      define J where "J = join '','' (map (\<lambda>kv. quote (fst kv) @ '':'' @ JSON_stringify (snd kv)) kvs)"
      have t: "JSON_stringify (JObj kvs) @ r = CHR ''{'' # J @ CHR ''}'' # r"
        by (simp add: J_def)
      have "\<exists>u. J @ CHR ''}'' # r = CHR 0x22 # u"
        unfolding J_def Cons by (cases kvs') (simp_all add: quote_def dquote_def)
      then obtain u where u: "J @ CHR ''}'' # r = CHR 0x22 # u" ..
      then have sk: "skip_ws (J @ CHR ''}'' # r) = J @ CHR ''}'' # r"
        and hd: "hd (J @ CHR ''}'' # r) \<noteq> CHR ''}''"
        by (simp_all add: skip_ws_def json_ws_def)
      from that n have "length J < m" by (simp add: J_def)
      with assms Cons have "parse_members m (J @ CHR ''}'' # r) = Some (kvs, r)"
        unfolding J_def by (intro parse_members_join) simp_all
      with sk hd show ?thesis
        unfolding t n by (simp add: startsWith_def del: parse_members.simps)
    qed
  qed
  then show ?thesis by (simp add: parses_def)
qed

text \<open>The parser reads back the printed text of every value without numbers.\<close>

lemma stringy_parses: "stringy v \<Longrightarrow> parses v"
proof (induction v)
  case JNull
  show ?case by (rule parses_JNull)
next
  case (JBool b)
  show ?case by (rule parses_JBool)
next
  case (JNum n)
  then show ?case by simp
next
  case (JStr t)
  show ?case by (rule parses_JStr)
next
  case (JArr xs)
  then show ?case by (intro parses_JArr) simp
next
  case (JObj kvs)
  have "parses (snd kv)" if "kv \<in> set kvs" for kv
    using JObj.IH [of kv "snd kv"] JObj.prems that by (cases kv) auto
  then show ?case by (intro parses_JObj) simp
qed

lemma obj_set_fresh: "k \<notin> fst ` set acc \<Longrightarrow> obj_set k v acc = acc @ [(k, v)]"
  by (induction acc) auto

lemma dedup_id: "distinct_keys v \<Longrightarrow> dedup v = v"
proof (induction v)
  case (JArr xs)
  then show ?case by (simp add: map_idI)
next
  case (JObj kvs)
  have ih: "dedup (snd kv) = snd kv" if "kv \<in> set kvs" for kv
    using JObj.IH [of kv "snd kv"] JObj.prems that by (cases kv) auto
  have "foldl (\<lambda>acc kv. obj_set (fst kv) (dedup (snd kv)) acc) acc ys = acc @ ys"
    if "distinct (map fst (acc @ ys))" "set ys \<subseteq> set kvs" for acc ys
    using that
  proof (induction ys arbitrary: acc)
    case Nil
    then show ?case by simp
  next
    case (Cons y ys)
    then have "obj_set (fst y) (dedup (snd y)) acc = acc @ [y]"
      using ih [of y] by (simp add: obj_set_fresh)
    moreover from Cons.prems have "distinct (map fst ((acc @ [y]) @ ys))" by simp
    ultimately show ?case using Cons.IH [of "acc @ [y]"] Cons.prems(2) by simp
  qed
  from this [of "[]" kvs] JObj.prems show ?case by simp
qed simp_all

lemma JSON_parse_ref_stringify:
  assumes "stringy v" and "distinct_keys v"
  shows "JSON_parse_ref (JSON_stringify v) = Some v"
proof -
  from assms(1) have p: "parses v" by (rule stringy_parses)
  have "parse_value (Suc (length (JSON_stringify v))) (JSON_stringify v @ []) = Some (v, [])"
    by (rule parsesD(5) [OF p]) simp
  moreover have "skip_ws (JSON_stringify v) = JSON_stringify v"
    using parsesD(2) [OF p, of "[]"] by simp
  ultimately show ?thesis
    by (simp add: JSON_parse_ref_def dedup_id [OF assms(2)] skip_ws_def del: parse_value.simps)
qed

lemma columns_stringy:
  "stringy (JArr (map json_of_ColumnAnalysis cols)) \<and> distinct_keys (JArr (map json_of_ColumnAnalysis cols))"
  by (auto simp: json_of_ColumnAnalysis_def split: option.splits)

text \<open>In particular it reads back the printed text of every array of column analyses.\<close>

lemma columns_round_trip:
  "JSON_parse_ref (JSON_stringify (JArr (map json_of_ColumnAnalysis cols)))
     = Some (JArr (map json_of_ColumnAnalysis cols))"
  using columns_stringy by (intro JSON_parse_ref_stringify) blast+

section \<open>The round trip of a schema analysis\<close>

lemma backtick_not_space: "\<not> isSpace backtick"
  by (simp add: isSpace_def backtick_def)

lemma newline_space: "isSpace newline"
  by (simp add: isSpace_def newline_def)

lemma dropWhile_fence: "dropWhile isSpace fence = fence"
  by (simp add: fence_def backtick_not_space)

lemma greedy_tail:
  "rmatch [Star Greedy isSpace, Lit fence, End] u c os cs = Some m \<Longrightarrow> dropWhile isSpace u = fence"
proof (induction u arbitrary: c)
  case Nil
  then show ?case by (simp add: fence_def)
next
  case (Cons x u)
  show ?case
  proof (cases "isSpace x")
    case True
    then have "x \<noteq> backtick" using backtick_not_space by auto
    then have "rmatch [Lit fence, End] (x # u) c os cs = None"
      by (simp add: fence_def)
    with Cons.prems True have "rmatch [Star Greedy isSpace, Lit fence, End] u (x # c) os cs = Some m"
      by (simp split: option.splits)
    then show ?thesis using Cons.IH True by simp
  next
    case False
    with Cons.prems have "rmatch [Lit fence, End] (x # u) c os cs = Some m" by simp
    then have "x # u = fence"
      by (simp add: fence_def split: if_splits)
    then have "dropWhile isSpace (x # u) = dropWhile isSpace fence" by (rule arg_cong)
    then show ?thesis by (simp only: dropWhile_fence)
  qed
qed

lemma closing_tail:
  assumes "rmatch [Opt [newline], Star Greedy isSpace, Lit fence, End] u c os cs = Some m"
  shows "dropWhile isSpace u = fence"
proof (cases "take 1 u = [newline] \<and> 1 \<le> length u")
  case True
  then obtain u' where u: "u = newline # u'" by (cases u) auto
  with assms have "rmatch [Star Greedy isSpace, Lit fence, End] u' (newline # c) os cs = Some m
                   \<or> rmatch [Star Greedy isSpace, Lit fence, End] u c os cs = Some m"
    by (simp del: rmatch.simps(7) split: option.splits)
  then show ?thesis
  proof
    assume "rmatch [Star Greedy isSpace, Lit fence, End] u' (newline # c) os cs = Some m"
    then have "dropWhile isSpace u' = fence" by (rule greedy_tail)
    then show ?thesis by (simp add: u newline_space)
  next
    assume "rmatch [Star Greedy isSpace, Lit fence, End] u c os cs = Some m"
    then show ?thesis by (rule greedy_tail)
  qed
next
  case False
  with assms have "rmatch [Star Greedy isSpace, Lit fence, End] u c os cs = Some m"
    by (simp del: rmatch.simps(7) split: if_splits)
  then show ?thesis by (rule greedy_tail)
qed

lemma closing_fails:
  assumes "x \<in> set u" and "\<not> isSpace x" and "x \<noteq> backtick"
  shows "rmatch (Close 2 # [Opt [newline], Star Greedy isSpace, Lit fence, End]) u c os cs = None"
proof (rule ccontr)
  assume "rmatch (Close 2 # [Opt [newline], Star Greedy isSpace, Lit fence, End]) u c os cs \<noteq> None"
  then obtain m cs' where "rmatch [Opt [newline], Star Greedy isSpace, Lit fence, End] u c os cs' = Some m"
    by (auto simp del: rmatch.simps(5,7) simp add: rmatch.simps(10) split: option.splits)
  then have "dropWhile isSpace u = fence" by (rule closing_tail)
  moreover from assms(1,2) have "x \<in> set (dropWhile isSpace u)"
    by (induction u) auto
  ultimately show False using assms(3) by (simp add: fence_def)
qed

lemma lazy_star:
  assumes "\<forall>x \<in> set w. p x"
    and "\<forall>k < length w. rmatch as (drop k w @ r) (rev (take k w) @ c) os cs = None"
  shows "rmatch (Star Lazy p # as) (w @ r) c os cs = rmatch (Star Lazy p # as) r (rev w @ c) os cs"
  using assms
proof (induction w arbitrary: c)
  case Nil
  show ?case by simp
next
  case (Cons x w)
  from Cons.prems(2) have 0: "rmatch as ((x # w) @ r) c os cs = None" by force
  have "\<forall>k < length w. rmatch as (drop k w @ r) (rev (take k w) @ x # c) os cs = None"
  proof (intro allI impI)
    fix k assume "k < length w"
    then have "Suc k < length (x # w)" by simp
    with Cons.prems(2) have "rmatch as (drop (Suc k) (x # w) @ r) (rev (take (Suc k) (x # w)) @ c) os cs = None"
      by blast
    then show "rmatch as (drop k w @ r) (rev (take k w) @ x # c) os cs = None" by simp
  qed
  with Cons.IH [of "x # c"] Cons.prems(1)
  have "rmatch (Star Lazy p # as) (w @ r) (x # c) os cs = rmatch (Star Lazy p # as) r (rev w @ x # c) os cs"
    by simp
  with 0 Cons.prems(1) show ?case by simp
qed

lemma greedy_star:
  assumes "\<forall>x \<in> set w. p x" and "r = [] \<or> \<not> p (hd r)"
    and "rmatch as r (rev w @ c) os cs = Some m"
  shows "rmatch (Star Greedy p # as) (w @ r) c os cs = Some m"
  using assms
proof (induction w arbitrary: c)
  case Nil
  then show ?case by (cases r) auto
next
  case (Cons x w)
  then have "rmatch (Star Greedy p # as) (w @ r) (x # c) os cs = Some m" by simp
  with Cons.prems(1) show ?case by simp
qed


lemma newline_not_word: "\<not> isWord newline"
  by (simp add: isWord_def newline_def)

lemma length_fence: "length fence = 3"
  by (simp add: fence_def)

text \<open>
  The pattern of \<open>parseJsonFromMarkdown\<close> on a fenced text: the tag is taken by the
  greedy \<open>\w*\<close>, the line feed by \<open>\s*\<close>, and the lazy group stops at the first place
  from which only white space and the closing fence follow, which is the end of the body
  when the body ends with a character that is neither white space nor a backtick.
\<close>

lemma fence_match:
  assumes tag: "\<forall>x \<in> set tag. isWord x"
    and body: "body \<noteq> []" "\<not> isSpace (hd body)" "\<not> isSpace (last body)" "last body \<noteq> backtick"
  shows "match_anchored fenceRegex_json (fenced tag body) = Some [(2, body), (1, tag)]"
proof -
  let ?K = "[Close 2, Opt [newline], Star Greedy isSpace, Lit fence, End]"
  let ?c1 = "rev tag @ rev fence"
  let ?c2 = "newline # ?c1"
  let ?os = "[(2, length ?c2), (1, 3)]"
  let ?m = "[(2, body), (1, tag)]"
  have tail: "rmatch ?K (newline # fence) (rev body @ ?c2) ?os [(1, tag)] = Some ?m"
    by (simp add: fence_def backtick_not_space)
  have fails: "\<forall>k < length body.
                 rmatch ?K (drop k body @ newline # fence) (rev (take k body) @ ?c2) ?os [(1, tag)] = None"
  proof (intro allI impI)
    fix k assume "k < length body"
    then have "last body \<in> set (drop k body)"
      by (metis drop_eq_Nil last_drop last_in_set not_le)
    then have "last body \<in> set (drop k body @ newline # fence)" by simp
    then show "rmatch ?K (drop k body @ newline # fence) (rev (take k body) @ ?c2) ?os [(1, tag)] = None"
      using body(3,4) by (rule closing_fails)
  qed
  have "rmatch (Star Lazy anyChar # ?K) (body @ newline # fence) ?c2 ?os [(1, tag)]
          = rmatch (Star Lazy anyChar # ?K) (newline # fence) (rev body @ ?c2) ?os [(1, tag)]"
    using fails by (intro lazy_star) (simp_all add: anyChar_def)
  also have "\<dots> = Some ?m"
    by (subst rmatch.simps(8)) (simp only: tail option.case)
  finally have lazy: "rmatch (Star Lazy anyChar # ?K) (body @ newline # fence) ?c2 ?os [(1, tag)] = Some ?m" .
  from body(1,2) have "take 1 (body @ newline # fence) \<noteq> [newline]"
    using newline_space by (cases body) auto
  with lazy have s6: "rmatch (Opt [newline] # Open 2 # Star Lazy anyChar # ?K) (body @ newline # fence)
                        ?c2 [(1, 3)] [(1, tag)] = Some ?m"
    by (simp del: rmatch.simps(8,10))
  have s5: "rmatch (Star Greedy isSpace # Opt [newline] # Open 2 # Star Lazy anyChar # ?K)
              ([newline] @ body @ newline # fence) ?c1 [(1, 3)] [(1, tag)] = Some ?m"
  proof (rule greedy_star)
    show "\<forall>x \<in> set [newline]. isSpace x" by (simp add: newline_space)
    show "body @ newline # fence = [] \<or> \<not> isSpace (hd (body @ newline # fence))"
      using body(1,2) by simp
    show "rmatch (Opt [newline] # Open 2 # Star Lazy anyChar # ?K) (body @ newline # fence)
            (rev [newline] @ ?c1) [(1, 3)] [(1, tag)] = Some ?m"
      using s6 by simp
  qed
  then have s4: "rmatch (Close 1 # Star Greedy isSpace # Opt [newline] # Open 2 # Star Lazy anyChar # ?K)
              (newline # body @ newline # fence) ?c1 [(1, 3)] [] = Some ?m"
    by (simp add: length_fence del: rmatch.simps(5,7,8,9))
  have s3: "rmatch (Star Greedy isWord # Close 1 # Star Greedy isSpace # Opt [newline] # Open 2
                      # Star Lazy anyChar # ?K)
              (tag @ newline # body @ newline # fence) (rev fence) [(1, 3)] [] = Some ?m"
  proof (rule greedy_star)
    show "\<forall>x \<in> set tag. isWord x" by (rule tag)
    show "newline # body @ newline # fence = [] \<or> \<not> isWord (hd (newline # body @ newline # fence))"
      by (simp add: newline_not_word)
    show "rmatch (Close 1 # Star Greedy isSpace # Opt [newline] # Open 2 # Star Lazy anyChar # ?K)
            (newline # body @ newline # fence) ?c1 [(1, 3)] [] = Some ?m"
      by (rule s4)
  qed
  have "match_anchored fenceRegex_json (fenced tag body)
          = rmatch (Star Greedy isWord # Close 1 # Star Greedy isSpace # Opt [newline] # Open 2
                      # Star Lazy anyChar # ?K)
              (tag @ newline # body @ newline # fence) (rev fence) [(1, 3)] []"
    by (simp add: match_anchored_def fenceRegex_json_def fenced_def length_fence
        del: rmatch.simps(5,7,8,10))
  with s3 show ?thesis by simp
qed

lemma dropWhile_hd: "xs \<noteq> [] \<Longrightarrow> \<not> P (hd xs) \<Longrightarrow> dropWhile P xs = xs"
  by (cases xs) auto

lemma trim_id: "s \<noteq> [] \<Longrightarrow> \<not> isSpace (hd s) \<Longrightarrow> \<not> isSpace (last s) \<Longrightarrow> trim s = s"
  using dropWhile_hd [of s isSpace] dropWhile_hd [of "rev s" isSpace]
  by (simp add: trim_def hd_rev)

lemma stripFence_fenced:
  assumes "\<forall>x \<in> set tag. isWord x"
    and "body \<noteq> []" "\<not> isSpace (hd body)" "\<not> isSpace (last body)" "last body \<noteq> backtick"
  shows "stripFence fenceRegex_json (fenced tag body) = body"
proof -
  have "trim (fenced tag body) = fenced tag body"
    by (rule trim_id) (simp_all add: fenced_def fence_def backtick_not_space)
  then show ?thesis
    using fence_match [OF assms] assms(2-4) by (simp add: stripFence_def group_def trim_id)
qed

lemma stripFence_raw:
  assumes "body \<noteq> []" "\<not> isSpace (hd body)" "\<not> isSpace (last body)" "hd body \<noteq> backtick"
  shows "stripFence fenceRegex_json body = body"
proof -
  from assms(1,4) have "match_anchored fenceRegex_json body = None"
    by (cases body) (simp_all add: match_anchored_def fenceRegex_json_def fence_def)
  then show ?thesis using assms(1-3) by (simp add: stripFence_def trim_id)
qed


lemma stringify_array_shape:
  "JSON_stringify (JArr xs) \<noteq> [] \<and> hd (JSON_stringify (JArr xs)) = CHR ''[''
   \<and> last (JSON_stringify (JArr xs)) = CHR '']''"
  by simp

lemma bracket_facts:
  "\<not> isSpace (CHR ''['')" "\<not> isSpace (CHR '']'')" "CHR ''['' \<noteq> backtick" "CHR '']'' \<noteq> backtick"
  by (simp_all add: isSpace_def backtick_def)

text \<open>
  C6: for every array of column analyses, with the reference parser, and with any
  other \<open>JSON.parse\<close> that reads back the JSON text of the array,
  \<open>analyzeSchemaWithGemini\<close> returns an analysis equal to the array from an answer
  that is this JSON text, and from an answer that is this text wrapped in a code fence
  with any language tag of word characters, the empty tag included.
\<close>

theorem schema_round_trip:
  fixes cols :: "ColumnAnalysis list"
  defines "v \<equiv> JArr (map json_of_ColumnAnalysis cols)"
  assumes contract: "parse = JSON_parse_ref \<or> parse (JSON_stringify v) = Some v"
    and sample: "\<not> prepareDataSample_throws n d"
    and tag: "\<forall>x \<in> set tag. isWord x"
  shows "analyzeSchemaWithGemini True parse n d fileName (Responded (JSON_stringify v))
           = Inr \<lparr>error = None, analysis = Some (map json_of_ColumnAnalysis cols)\<rparr>
       \<and> analyzeSchemaWithGemini True parse n d fileName (Responded (fenced tag (JSON_stringify v)))
           = Inr \<lparr>error = None, analysis = Some (map json_of_ColumnAnalysis cols)\<rparr>"
proof -
  let ?t = "JSON_stringify v"
  from contract have parse: "parse (JSON_stringify v) = Some v"
    unfolding v_def using columns_round_trip by auto
  have shape: "?t \<noteq> []" "hd ?t = CHR ''[''" "last ?t = CHR '']''"
    unfolding v_def using stringify_array_shape by blast+
  have raw: "stripFence fenceRegex_json ?t = ?t"
    by (rule stripFence_raw) (simp_all add: shape bracket_facts)
  have fen: "stripFence fenceRegex_json (fenced tag ?t) = ?t"
    by (rule stripFence_fenced) (simp_all add: shape bracket_facts tag)
  have "parseJsonFromMarkdown parse ?t = v" "parseJsonFromMarkdown parse (fenced tag ?t) = v"
    by (simp_all add: parseJsonFromMarkdown_def raw fen parse)
  then show ?thesis
    using sample by (simp add: analyzeSchemaWithGemini_def prepareDataSample_throws_def v_def)
qed

lemma example_round_trip:
  "JSON_parse_ref (JSON_stringify (JArr (map json_of_ColumnAnalysis example_columns)))
     = Some (JArr (map json_of_ColumnAnalysis example_columns))"
  by code_simp

lemma example_sample: "\<not> prepareDataSample_throws 20 [JObj [(''name'', JStr ''Alice'')]]"
  by code_simp

lemma example_tag: "\<forall>x \<in> set ''json''. isWord x"
  by code_simp

text \<open>The two example columns, raw and in a fence tagged \<open>json\<close>, with the reference parser.\<close>

theorem schema_round_trip_witness:
  "JSON_parse_ref (JSON_stringify (JArr (map json_of_ColumnAnalysis example_columns)))
     = Some (JArr (map json_of_ColumnAnalysis example_columns))
   \<and> analyzeSchemaWithGemini True JSON_parse_ref 20 [JObj [(''name'', JStr ''Alice'')]] ''people.csv''
        (Responded (JSON_stringify (JArr (map json_of_ColumnAnalysis example_columns))))
       = Inr \<lparr>error = None, analysis = Some (map json_of_ColumnAnalysis example_columns)\<rparr>
   \<and> analyzeSchemaWithGemini True JSON_parse_ref 20 [JObj [(''name'', JStr ''Alice'')]] ''people.csv''
        (Responded (fenced ''json'' (JSON_stringify (JArr (map json_of_ColumnAnalysis example_columns)))))
       = Inr \<lparr>error = None, analysis = Some (map json_of_ColumnAnalysis example_columns)\<rparr>"
  using schema_round_trip [where parse = JSON_parse_ref and cols = example_columns
      and fileName = "''people.csv''", OF disjI1 [OF refl] example_sample example_tag]
    example_round_trip
  by blast

end
